theory Spec2Isabelle
  imports Main "HOL-Library.Sublist"
begin

section \<open>Python text\<close>

text \<open>
  A Python \<open>str\<close> is a sequence of Unicode code points; it is modelled as a list of
  integers, one per code point. \<open>lit\<close> turns an ASCII literal of the source into
  such a list. The tables of the Unicode database that the interpreter consults (the
  whitespace set, the uppercase mapping, the printable code points) are those of
  Unicode 14.0.0, the version of CPython 3.11; where the text of an exception differs
  between versions of the interpreter, the model follows CPython 3.11 too.
\<close>

type_synonym ustring = "int list"

definition lit :: "string \<Rightarrow> ustring" where
  "lit s = map of_char s"

definition is_space :: "int \<Rightarrow> bool" where
  \<comment> \<open>\<open>str.isspace\<close> of one code point, which is also the class \<open>\s\<close> of a text
      pattern: tab to carriage return, the separators 0x1c to 0x1f, the blank, U+0085,
      U+00A0, U+1680, U+2000 to U+200A, U+2028, U+2029, U+202F, U+205F and U+3000.\<close>
  "is_space c =
     ((9 \<le> c \<and> c \<le> 13) \<or> (28 \<le> c \<and> c \<le> 32) \<or> c = 133 \<or> c = 160 \<or> c = 5760
      \<or> (8192 \<le> c \<and> c \<le> 8202) \<or> c = 8232 \<or> c = 8233 \<or> c = 8239 \<or> c = 8287
      \<or> c = 12288)"

definition strip :: "ustring \<Rightarrow> ustring" where
  "strip s = rev (dropWhile is_space (rev (dropWhile is_space s)))"

fun contains :: "ustring \<Rightarrow> ustring \<Rightarrow> bool" where
  \<comment> \<open>\<open>contains p s\<close> is Python's \<open>p in s\<close>.\<close>
  "contains p [] = (p = [])"
| "contains p (c # cs) = (prefix p (c # cs) \<or> contains p cs)"

fun join :: "ustring \<Rightarrow> ustring list \<Rightarrow> ustring" where
  "join sep [] = []"
| "join sep [x] = x"
| "join sep (x # y # ys) = x @ sep @ join sep (y # ys)"

function digits :: "nat \<Rightarrow> ustring" where
  "digits n = (if n < 10 then [48 + int n] else digits (n div 10) @ [48 + int (n mod 10)])"
  by pat_completeness auto
termination
  by (relation "measure (\<lambda>n. n)") auto

declare digits.simps [simp del]

definition str_int :: "int \<Rightarrow> ustring" where
  \<comment> \<open>\<open>str\<close> of an integer; 45 is the minus sign.\<close>
  "str_int i = (if i < 0 then 45 # digits (nat (- i)) else digits (nat i))"

subsection \<open>Uppercasing\<close>

text \<open>
  \<open>str.upper\<close> replaces each code point by its full uppercase mapping, which may be
  several code points (U+00DF becomes "SS"). The tables list every code point from 128
  on whose mapping differs from itself.
\<close>

definition upper_table_0 :: "(int \<times> int list) list" where
  "upper_table_0 =
     [(181, [924]), (223, [83, 83]), (224, [192]), (225, [193]), (226, [194]),
      (227, [195]), (228, [196]), (229, [197]), (230, [198]), (231, [199]),
      (232, [200]), (233, [201]), (234, [202]), (235, [203]), (236, [204]),
      (237, [205]), (238, [206]), (239, [207]), (240, [208]), (241, [209]),
      (242, [210]), (243, [211]), (244, [212]), (245, [213]), (246, [214]),
      (248, [216]), (249, [217]), (250, [218]), (251, [219]), (252, [220]),
      (253, [221]), (254, [222]), (255, [376]), (257, [256]), (259, [258]),
      (261, [260]), (263, [262]), (265, [264]), (267, [266]), (269, [268]),
      (271, [270]), (273, [272]), (275, [274]), (277, [276]), (279, [278]),
      (281, [280]), (283, [282]), (285, [284]), (287, [286]), (289, [288])]"

definition upper_table_1 :: "(int \<times> int list) list" where
  "upper_table_1 =
     [(291, [290]), (293, [292]), (295, [294]), (297, [296]), (299, [298]),
      (301, [300]), (303, [302]), (305, [73]), (307, [306]), (309, [308]),
      (311, [310]), (314, [313]), (316, [315]), (318, [317]), (320, [319]),
      (322, [321]), (324, [323]), (326, [325]), (328, [327]), (329, [700, 78]),
      (331, [330]), (333, [332]), (335, [334]), (337, [336]), (339, [338]),
      (341, [340]), (343, [342]), (345, [344]), (347, [346]), (349, [348]),
      (351, [350]), (353, [352]), (355, [354]), (357, [356]), (359, [358]),
      (361, [360]), (363, [362]), (365, [364]), (367, [366]), (369, [368]),
      (371, [370]), (373, [372]), (375, [374]), (378, [377]), (380, [379]),
      (382, [381]), (383, [83]), (384, [579]), (387, [386]), (389, [388])]"

definition upper_table_2 :: "(int \<times> int list) list" where
  "upper_table_2 =
     [(392, [391]), (396, [395]), (402, [401]), (405, [502]), (409, [408]),
      (410, [573]), (414, [544]), (417, [416]), (419, [418]), (421, [420]),
      (424, [423]), (429, [428]), (432, [431]), (436, [435]), (438, [437]),
      (441, [440]), (445, [444]), (447, [503]), (453, [452]), (454, [452]),
      (456, [455]), (457, [455]), (459, [458]), (460, [458]), (462, [461]),
      (464, [463]), (466, [465]), (468, [467]), (470, [469]), (472, [471]),
      (474, [473]), (476, [475]), (477, [398]), (479, [478]), (481, [480]),
      (483, [482]), (485, [484]), (487, [486]), (489, [488]), (491, [490]),
      (493, [492]), (495, [494]), (496, [74, 780]), (498, [497]), (499, [497]),
      (501, [500]), (505, [504]), (507, [506]), (509, [508]), (511, [510])]"

definition upper_table_3 :: "(int \<times> int list) list" where
  "upper_table_3 =
     [(513, [512]), (515, [514]), (517, [516]), (519, [518]), (521, [520]),
      (523, [522]), (525, [524]), (527, [526]), (529, [528]), (531, [530]),
      (533, [532]), (535, [534]), (537, [536]), (539, [538]), (541, [540]),
      (543, [542]), (547, [546]), (549, [548]), (551, [550]), (553, [552]),
      (555, [554]), (557, [556]), (559, [558]), (561, [560]), (563, [562]),
      (572, [571]), (575, [11390]), (576, [11391]), (578, [577]), (583, [582]),
      (585, [584]), (587, [586]), (589, [588]), (591, [590]), (592, [11375]),
      (593, [11373]), (594, [11376]), (595, [385]), (596, [390]), (598, [393]),
      (599, [394]), (601, [399]), (603, [400]), (604, [42923]), (608, [403]),
      (609, [42924]), (611, [404]), (613, [42893]), (614, [42922]), (616, [407])]"

definition upper_table_4 :: "(int \<times> int list) list" where
  "upper_table_4 =
     [(617, [406]), (618, [42926]), (619, [11362]), (620, [42925]), (623, [412]),
      (625, [11374]), (626, [413]), (629, [415]), (637, [11364]), (640, [422]),
      (642, [42949]), (643, [425]), (647, [42929]), (648, [430]), (649, [580]),
      (650, [433]), (651, [434]), (652, [581]), (658, [439]), (669, [42930]),
      (670, [42928]), (837, [921]), (881, [880]), (883, [882]), (887, [886]),
      (891, [1021]), (892, [1022]), (893, [1023]), (912, [921, 776, 769]), (940, [902]),
      (941, [904]), (942, [905]), (943, [906]), (944, [933, 776, 769]), (945, [913]),
      (946, [914]), (947, [915]), (948, [916]), (949, [917]), (950, [918]),
      (951, [919]), (952, [920]), (953, [921]), (954, [922]), (955, [923]),
      (956, [924]), (957, [925]), (958, [926]), (959, [927]), (960, [928])]"

definition upper_table_5 :: "(int \<times> int list) list" where
  "upper_table_5 =
     [(961, [929]), (962, [931]), (963, [931]), (964, [932]), (965, [933]),
      (966, [934]), (967, [935]), (968, [936]), (969, [937]), (970, [938]),
      (971, [939]), (972, [908]), (973, [910]), (974, [911]), (976, [914]),
      (977, [920]), (981, [934]), (982, [928]), (983, [975]), (985, [984]),
      (987, [986]), (989, [988]), (991, [990]), (993, [992]), (995, [994]),
      (997, [996]), (999, [998]), (1001, [1000]), (1003, [1002]), (1005, [1004]),
      (1007, [1006]), (1008, [922]), (1009, [929]), (1010, [1017]), (1011, [895]),
      (1013, [917]), (1016, [1015]), (1019, [1018]), (1072, [1040]), (1073, [1041]),
      (1074, [1042]), (1075, [1043]), (1076, [1044]), (1077, [1045]), (1078, [1046]),
      (1079, [1047]), (1080, [1048]), (1081, [1049]), (1082, [1050]), (1083, [1051])]"

definition upper_table_6 :: "(int \<times> int list) list" where
  "upper_table_6 =
     [(1084, [1052]), (1085, [1053]), (1086, [1054]), (1087, [1055]), (1088, [1056]),
      (1089, [1057]), (1090, [1058]), (1091, [1059]), (1092, [1060]), (1093, [1061]),
      (1094, [1062]), (1095, [1063]), (1096, [1064]), (1097, [1065]), (1098, [1066]),
      (1099, [1067]), (1100, [1068]), (1101, [1069]), (1102, [1070]), (1103, [1071]),
      (1104, [1024]), (1105, [1025]), (1106, [1026]), (1107, [1027]), (1108, [1028]),
      (1109, [1029]), (1110, [1030]), (1111, [1031]), (1112, [1032]), (1113, [1033]),
      (1114, [1034]), (1115, [1035]), (1116, [1036]), (1117, [1037]), (1118, [1038]),
      (1119, [1039]), (1121, [1120]), (1123, [1122]), (1125, [1124]), (1127, [1126]),
      (1129, [1128]), (1131, [1130]), (1133, [1132]), (1135, [1134]), (1137, [1136]),
      (1139, [1138]), (1141, [1140]), (1143, [1142]), (1145, [1144]), (1147, [1146])]"

definition upper_table_7 :: "(int \<times> int list) list" where
  "upper_table_7 =
     [(1149, [1148]), (1151, [1150]), (1153, [1152]), (1163, [1162]), (1165, [1164]),
      (1167, [1166]), (1169, [1168]), (1171, [1170]), (1173, [1172]), (1175, [1174]),
      (1177, [1176]), (1179, [1178]), (1181, [1180]), (1183, [1182]), (1185, [1184]),
      (1187, [1186]), (1189, [1188]), (1191, [1190]), (1193, [1192]), (1195, [1194]),
      (1197, [1196]), (1199, [1198]), (1201, [1200]), (1203, [1202]), (1205, [1204]),
      (1207, [1206]), (1209, [1208]), (1211, [1210]), (1213, [1212]), (1215, [1214]),
      (1218, [1217]), (1220, [1219]), (1222, [1221]), (1224, [1223]), (1226, [1225]),
      (1228, [1227]), (1230, [1229]), (1231, [1216]), (1233, [1232]), (1235, [1234]),
      (1237, [1236]), (1239, [1238]), (1241, [1240]), (1243, [1242]), (1245, [1244]),
      (1247, [1246]), (1249, [1248]), (1251, [1250]), (1253, [1252]), (1255, [1254])]"

definition upper_table_8 :: "(int \<times> int list) list" where
  "upper_table_8 =
     [(1257, [1256]), (1259, [1258]), (1261, [1260]), (1263, [1262]), (1265, [1264]),
      (1267, [1266]), (1269, [1268]), (1271, [1270]), (1273, [1272]), (1275, [1274]),
      (1277, [1276]), (1279, [1278]), (1281, [1280]), (1283, [1282]), (1285, [1284]),
      (1287, [1286]), (1289, [1288]), (1291, [1290]), (1293, [1292]), (1295, [1294]),
      (1297, [1296]), (1299, [1298]), (1301, [1300]), (1303, [1302]), (1305, [1304]),
      (1307, [1306]), (1309, [1308]), (1311, [1310]), (1313, [1312]), (1315, [1314]),
      (1317, [1316]), (1319, [1318]), (1321, [1320]), (1323, [1322]), (1325, [1324]),
      (1327, [1326]), (1377, [1329]), (1378, [1330]), (1379, [1331]), (1380, [1332]),
      (1381, [1333]), (1382, [1334]), (1383, [1335]), (1384, [1336]), (1385, [1337]),
      (1386, [1338]), (1387, [1339]), (1388, [1340]), (1389, [1341]), (1390, [1342])]"

definition upper_table_9 :: "(int \<times> int list) list" where
  "upper_table_9 =
     [(1391, [1343]), (1392, [1344]), (1393, [1345]), (1394, [1346]), (1395, [1347]),
      (1396, [1348]), (1397, [1349]), (1398, [1350]), (1399, [1351]), (1400, [1352]),
      (1401, [1353]), (1402, [1354]), (1403, [1355]), (1404, [1356]), (1405, [1357]),
      (1406, [1358]), (1407, [1359]), (1408, [1360]), (1409, [1361]), (1410, [1362]),
      (1411, [1363]), (1412, [1364]), (1413, [1365]), (1414, [1366]), (1415, [1333, 1362]),
      (4304, [7312]), (4305, [7313]), (4306, [7314]), (4307, [7315]), (4308, [7316]),
      (4309, [7317]), (4310, [7318]), (4311, [7319]), (4312, [7320]), (4313, [7321]),
      (4314, [7322]), (4315, [7323]), (4316, [7324]), (4317, [7325]), (4318, [7326]),
      (4319, [7327]), (4320, [7328]), (4321, [7329]), (4322, [7330]), (4323, [7331]),
      (4324, [7332]), (4325, [7333]), (4326, [7334]), (4327, [7335]), (4328, [7336])]"

definition upper_table_10 :: "(int \<times> int list) list" where
  "upper_table_10 =
     [(4329, [7337]), (4330, [7338]), (4331, [7339]), (4332, [7340]), (4333, [7341]),
      (4334, [7342]), (4335, [7343]), (4336, [7344]), (4337, [7345]), (4338, [7346]),
      (4339, [7347]), (4340, [7348]), (4341, [7349]), (4342, [7350]), (4343, [7351]),
      (4344, [7352]), (4345, [7353]), (4346, [7354]), (4349, [7357]), (4350, [7358]),
      (4351, [7359]), (5112, [5104]), (5113, [5105]), (5114, [5106]), (5115, [5107]),
      (5116, [5108]), (5117, [5109]), (7296, [1042]), (7297, [1044]), (7298, [1054]),
      (7299, [1057]), (7300, [1058]), (7301, [1058]), (7302, [1066]), (7303, [1122]),
      (7304, [42570]), (7545, [42877]), (7549, [11363]), (7566, [42950]), (7681, [7680]),
      (7683, [7682]), (7685, [7684]), (7687, [7686]), (7689, [7688]), (7691, [7690]),
      (7693, [7692]), (7695, [7694]), (7697, [7696]), (7699, [7698]), (7701, [7700])]"

definition upper_table_11 :: "(int \<times> int list) list" where
  "upper_table_11 =
     [(7703, [7702]), (7705, [7704]), (7707, [7706]), (7709, [7708]), (7711, [7710]),
      (7713, [7712]), (7715, [7714]), (7717, [7716]), (7719, [7718]), (7721, [7720]),
      (7723, [7722]), (7725, [7724]), (7727, [7726]), (7729, [7728]), (7731, [7730]),
      (7733, [7732]), (7735, [7734]), (7737, [7736]), (7739, [7738]), (7741, [7740]),
      (7743, [7742]), (7745, [7744]), (7747, [7746]), (7749, [7748]), (7751, [7750]),
      (7753, [7752]), (7755, [7754]), (7757, [7756]), (7759, [7758]), (7761, [7760]),
      (7763, [7762]), (7765, [7764]), (7767, [7766]), (7769, [7768]), (7771, [7770]),
      (7773, [7772]), (7775, [7774]), (7777, [7776]), (7779, [7778]), (7781, [7780]),
      (7783, [7782]), (7785, [7784]), (7787, [7786]), (7789, [7788]), (7791, [7790]),
      (7793, [7792]), (7795, [7794]), (7797, [7796]), (7799, [7798]), (7801, [7800])]"

definition upper_table_12 :: "(int \<times> int list) list" where
  "upper_table_12 =
     [(7803, [7802]), (7805, [7804]), (7807, [7806]), (7809, [7808]), (7811, [7810]),
      (7813, [7812]), (7815, [7814]), (7817, [7816]), (7819, [7818]), (7821, [7820]),
      (7823, [7822]), (7825, [7824]), (7827, [7826]), (7829, [7828]), (7830, [72, 817]),
      (7831, [84, 776]), (7832, [87, 778]), (7833, [89, 778]), (7834, [65, 702]), (7835, [7776]),
      (7841, [7840]), (7843, [7842]), (7845, [7844]), (7847, [7846]), (7849, [7848]),
      (7851, [7850]), (7853, [7852]), (7855, [7854]), (7857, [7856]), (7859, [7858]),
      (7861, [7860]), (7863, [7862]), (7865, [7864]), (7867, [7866]), (7869, [7868]),
      (7871, [7870]), (7873, [7872]), (7875, [7874]), (7877, [7876]), (7879, [7878]),
      (7881, [7880]), (7883, [7882]), (7885, [7884]), (7887, [7886]), (7889, [7888]),
      (7891, [7890]), (7893, [7892]), (7895, [7894]), (7897, [7896]), (7899, [7898])]"

definition upper_table_13 :: "(int \<times> int list) list" where
  "upper_table_13 =
     [(7901, [7900]), (7903, [7902]), (7905, [7904]), (7907, [7906]), (7909, [7908]),
      (7911, [7910]), (7913, [7912]), (7915, [7914]), (7917, [7916]), (7919, [7918]),
      (7921, [7920]), (7923, [7922]), (7925, [7924]), (7927, [7926]), (7929, [7928]),
      (7931, [7930]), (7933, [7932]), (7935, [7934]), (7936, [7944]), (7937, [7945]),
      (7938, [7946]), (7939, [7947]), (7940, [7948]), (7941, [7949]), (7942, [7950]),
      (7943, [7951]), (7952, [7960]), (7953, [7961]), (7954, [7962]), (7955, [7963]),
      (7956, [7964]), (7957, [7965]), (7968, [7976]), (7969, [7977]), (7970, [7978]),
      (7971, [7979]), (7972, [7980]), (7973, [7981]), (7974, [7982]), (7975, [7983]),
      (7984, [7992]), (7985, [7993]), (7986, [7994]), (7987, [7995]), (7988, [7996]),
      (7989, [7997]), (7990, [7998]), (7991, [7999]), (8000, [8008]), (8001, [8009])]"

definition upper_table_14 :: "(int \<times> int list) list" where
  "upper_table_14 =
     [(8002, [8010]), (8003, [8011]), (8004, [8012]), (8005, [8013]), (8016, [933, 787]),
      (8017, [8025]), (8018, [933, 787, 768]), (8019, [8027]), (8020, [933, 787, 769]), (8021, [8029]),
      (8022, [933, 787, 834]), (8023, [8031]), (8032, [8040]), (8033, [8041]), (8034, [8042]),
      (8035, [8043]), (8036, [8044]), (8037, [8045]), (8038, [8046]), (8039, [8047]),
      (8048, [8122]), (8049, [8123]), (8050, [8136]), (8051, [8137]), (8052, [8138]),
      (8053, [8139]), (8054, [8154]), (8055, [8155]), (8056, [8184]), (8057, [8185]),
      (8058, [8170]), (8059, [8171]), (8060, [8186]), (8061, [8187]), (8064, [7944, 921]),
      (8065, [7945, 921]), (8066, [7946, 921]), (8067, [7947, 921]), (8068, [7948, 921]), (8069, [7949, 921]),
      (8070, [7950, 921]), (8071, [7951, 921]), (8072, [7944, 921]), (8073, [7945, 921]), (8074, [7946, 921]),
      (8075, [7947, 921]), (8076, [7948, 921]), (8077, [7949, 921]), (8078, [7950, 921]), (8079, [7951, 921])]"

definition upper_table_15 :: "(int \<times> int list) list" where
  "upper_table_15 =
     [(8080, [7976, 921]), (8081, [7977, 921]), (8082, [7978, 921]), (8083, [7979, 921]), (8084, [7980, 921]),
      (8085, [7981, 921]), (8086, [7982, 921]), (8087, [7983, 921]), (8088, [7976, 921]), (8089, [7977, 921]),
      (8090, [7978, 921]), (8091, [7979, 921]), (8092, [7980, 921]), (8093, [7981, 921]), (8094, [7982, 921]),
      (8095, [7983, 921]), (8096, [8040, 921]), (8097, [8041, 921]), (8098, [8042, 921]), (8099, [8043, 921]),
      (8100, [8044, 921]), (8101, [8045, 921]), (8102, [8046, 921]), (8103, [8047, 921]), (8104, [8040, 921]),
      (8105, [8041, 921]), (8106, [8042, 921]), (8107, [8043, 921]), (8108, [8044, 921]), (8109, [8045, 921]),
      (8110, [8046, 921]), (8111, [8047, 921]), (8112, [8120]), (8113, [8121]), (8114, [8122, 921]),
      (8115, [913, 921]), (8116, [902, 921]), (8118, [913, 834]), (8119, [913, 834, 921]), (8124, [913, 921]),
      (8126, [921]), (8130, [8138, 921]), (8131, [919, 921]), (8132, [905, 921]), (8134, [919, 834]),
      (8135, [919, 834, 921]), (8140, [919, 921]), (8144, [8152]), (8145, [8153]), (8146, [921, 776, 768])]"

definition upper_table_16 :: "(int \<times> int list) list" where
  "upper_table_16 =
     [(8147, [921, 776, 769]), (8150, [921, 834]), (8151, [921, 776, 834]), (8160, [8168]), (8161, [8169]),
      (8162, [933, 776, 768]), (8163, [933, 776, 769]), (8164, [929, 787]), (8165, [8172]), (8166, [933, 834]),
      (8167, [933, 776, 834]), (8178, [8186, 921]), (8179, [937, 921]), (8180, [911, 921]), (8182, [937, 834]),
      (8183, [937, 834, 921]), (8188, [937, 921]), (8526, [8498]), (8560, [8544]), (8561, [8545]),
      (8562, [8546]), (8563, [8547]), (8564, [8548]), (8565, [8549]), (8566, [8550]),
      (8567, [8551]), (8568, [8552]), (8569, [8553]), (8570, [8554]), (8571, [8555]),
      (8572, [8556]), (8573, [8557]), (8574, [8558]), (8575, [8559]), (8580, [8579]),
      (9424, [9398]), (9425, [9399]), (9426, [9400]), (9427, [9401]), (9428, [9402]),
      (9429, [9403]), (9430, [9404]), (9431, [9405]), (9432, [9406]), (9433, [9407]),
      (9434, [9408]), (9435, [9409]), (9436, [9410]), (9437, [9411]), (9438, [9412])]"

definition upper_table_17 :: "(int \<times> int list) list" where
  "upper_table_17 =
     [(9439, [9413]), (9440, [9414]), (9441, [9415]), (9442, [9416]), (9443, [9417]),
      (9444, [9418]), (9445, [9419]), (9446, [9420]), (9447, [9421]), (9448, [9422]),
      (9449, [9423]), (11312, [11264]), (11313, [11265]), (11314, [11266]), (11315, [11267]),
      (11316, [11268]), (11317, [11269]), (11318, [11270]), (11319, [11271]), (11320, [11272]),
      (11321, [11273]), (11322, [11274]), (11323, [11275]), (11324, [11276]), (11325, [11277]),
      (11326, [11278]), (11327, [11279]), (11328, [11280]), (11329, [11281]), (11330, [11282]),
      (11331, [11283]), (11332, [11284]), (11333, [11285]), (11334, [11286]), (11335, [11287]),
      (11336, [11288]), (11337, [11289]), (11338, [11290]), (11339, [11291]), (11340, [11292]),
      (11341, [11293]), (11342, [11294]), (11343, [11295]), (11344, [11296]), (11345, [11297]),
      (11346, [11298]), (11347, [11299]), (11348, [11300]), (11349, [11301]), (11350, [11302])]"

definition upper_table_18 :: "(int \<times> int list) list" where
  "upper_table_18 =
     [(11351, [11303]), (11352, [11304]), (11353, [11305]), (11354, [11306]), (11355, [11307]),
      (11356, [11308]), (11357, [11309]), (11358, [11310]), (11359, [11311]), (11361, [11360]),
      (11365, [570]), (11366, [574]), (11368, [11367]), (11370, [11369]), (11372, [11371]),
      (11379, [11378]), (11382, [11381]), (11393, [11392]), (11395, [11394]), (11397, [11396]),
      (11399, [11398]), (11401, [11400]), (11403, [11402]), (11405, [11404]), (11407, [11406]),
      (11409, [11408]), (11411, [11410]), (11413, [11412]), (11415, [11414]), (11417, [11416]),
      (11419, [11418]), (11421, [11420]), (11423, [11422]), (11425, [11424]), (11427, [11426]),
      (11429, [11428]), (11431, [11430]), (11433, [11432]), (11435, [11434]), (11437, [11436]),
      (11439, [11438]), (11441, [11440]), (11443, [11442]), (11445, [11444]), (11447, [11446]),
      (11449, [11448]), (11451, [11450]), (11453, [11452]), (11455, [11454]), (11457, [11456])]"

definition upper_table_19 :: "(int \<times> int list) list" where
  "upper_table_19 =
     [(11459, [11458]), (11461, [11460]), (11463, [11462]), (11465, [11464]), (11467, [11466]),
      (11469, [11468]), (11471, [11470]), (11473, [11472]), (11475, [11474]), (11477, [11476]),
      (11479, [11478]), (11481, [11480]), (11483, [11482]), (11485, [11484]), (11487, [11486]),
      (11489, [11488]), (11491, [11490]), (11500, [11499]), (11502, [11501]), (11507, [11506]),
      (11520, [4256]), (11521, [4257]), (11522, [4258]), (11523, [4259]), (11524, [4260]),
      (11525, [4261]), (11526, [4262]), (11527, [4263]), (11528, [4264]), (11529, [4265]),
      (11530, [4266]), (11531, [4267]), (11532, [4268]), (11533, [4269]), (11534, [4270]),
      (11535, [4271]), (11536, [4272]), (11537, [4273]), (11538, [4274]), (11539, [4275]),
      (11540, [4276]), (11541, [4277]), (11542, [4278]), (11543, [4279]), (11544, [4280]),
      (11545, [4281]), (11546, [4282]), (11547, [4283]), (11548, [4284]), (11549, [4285])]"

definition upper_table_20 :: "(int \<times> int list) list" where
  "upper_table_20 =
     [(11550, [4286]), (11551, [4287]), (11552, [4288]), (11553, [4289]), (11554, [4290]),
      (11555, [4291]), (11556, [4292]), (11557, [4293]), (11559, [4295]), (11565, [4301]),
      (42561, [42560]), (42563, [42562]), (42565, [42564]), (42567, [42566]), (42569, [42568]),
      (42571, [42570]), (42573, [42572]), (42575, [42574]), (42577, [42576]), (42579, [42578]),
      (42581, [42580]), (42583, [42582]), (42585, [42584]), (42587, [42586]), (42589, [42588]),
      (42591, [42590]), (42593, [42592]), (42595, [42594]), (42597, [42596]), (42599, [42598]),
      (42601, [42600]), (42603, [42602]), (42605, [42604]), (42625, [42624]), (42627, [42626]),
      (42629, [42628]), (42631, [42630]), (42633, [42632]), (42635, [42634]), (42637, [42636]),
      (42639, [42638]), (42641, [42640]), (42643, [42642]), (42645, [42644]), (42647, [42646]),
      (42649, [42648]), (42651, [42650]), (42787, [42786]), (42789, [42788]), (42791, [42790])]"

definition upper_table_21 :: "(int \<times> int list) list" where
  "upper_table_21 =
     [(42793, [42792]), (42795, [42794]), (42797, [42796]), (42799, [42798]), (42803, [42802]),
      (42805, [42804]), (42807, [42806]), (42809, [42808]), (42811, [42810]), (42813, [42812]),
      (42815, [42814]), (42817, [42816]), (42819, [42818]), (42821, [42820]), (42823, [42822]),
      (42825, [42824]), (42827, [42826]), (42829, [42828]), (42831, [42830]), (42833, [42832]),
      (42835, [42834]), (42837, [42836]), (42839, [42838]), (42841, [42840]), (42843, [42842]),
      (42845, [42844]), (42847, [42846]), (42849, [42848]), (42851, [42850]), (42853, [42852]),
      (42855, [42854]), (42857, [42856]), (42859, [42858]), (42861, [42860]), (42863, [42862]),
      (42874, [42873]), (42876, [42875]), (42879, [42878]), (42881, [42880]), (42883, [42882]),
      (42885, [42884]), (42887, [42886]), (42892, [42891]), (42897, [42896]), (42899, [42898]),
      (42900, [42948]), (42903, [42902]), (42905, [42904]), (42907, [42906]), (42909, [42908])]"

definition upper_table_22 :: "(int \<times> int list) list" where
  "upper_table_22 =
     [(42911, [42910]), (42913, [42912]), (42915, [42914]), (42917, [42916]), (42919, [42918]),
      (42921, [42920]), (42933, [42932]), (42935, [42934]), (42937, [42936]), (42939, [42938]),
      (42941, [42940]), (42943, [42942]), (42945, [42944]), (42947, [42946]), (42952, [42951]),
      (42954, [42953]), (42961, [42960]), (42967, [42966]), (42969, [42968]), (42998, [42997]),
      (43859, [42931]), (43888, [5024]), (43889, [5025]), (43890, [5026]), (43891, [5027]),
      (43892, [5028]), (43893, [5029]), (43894, [5030]), (43895, [5031]), (43896, [5032]),
      (43897, [5033]), (43898, [5034]), (43899, [5035]), (43900, [5036]), (43901, [5037]),
      (43902, [5038]), (43903, [5039]), (43904, [5040]), (43905, [5041]), (43906, [5042]),
      (43907, [5043]), (43908, [5044]), (43909, [5045]), (43910, [5046]), (43911, [5047]),
      (43912, [5048]), (43913, [5049]), (43914, [5050]), (43915, [5051]), (43916, [5052])]"

definition upper_table_23 :: "(int \<times> int list) list" where
  "upper_table_23 =
     [(43917, [5053]), (43918, [5054]), (43919, [5055]), (43920, [5056]), (43921, [5057]),
      (43922, [5058]), (43923, [5059]), (43924, [5060]), (43925, [5061]), (43926, [5062]),
      (43927, [5063]), (43928, [5064]), (43929, [5065]), (43930, [5066]), (43931, [5067]),
      (43932, [5068]), (43933, [5069]), (43934, [5070]), (43935, [5071]), (43936, [5072]),
      (43937, [5073]), (43938, [5074]), (43939, [5075]), (43940, [5076]), (43941, [5077]),
      (43942, [5078]), (43943, [5079]), (43944, [5080]), (43945, [5081]), (43946, [5082]),
      (43947, [5083]), (43948, [5084]), (43949, [5085]), (43950, [5086]), (43951, [5087]),
      (43952, [5088]), (43953, [5089]), (43954, [5090]), (43955, [5091]), (43956, [5092]),
      (43957, [5093]), (43958, [5094]), (43959, [5095]), (43960, [5096]), (43961, [5097]),
      (43962, [5098]), (43963, [5099]), (43964, [5100]), (43965, [5101]), (43966, [5102])]"

definition upper_table_24 :: "(int \<times> int list) list" where
  "upper_table_24 =
     [(43967, [5103]), (64256, [70, 70]), (64257, [70, 73]), (64258, [70, 76]), (64259, [70, 70, 73]),
      (64260, [70, 70, 76]), (64261, [83, 84]), (64262, [83, 84]), (64275, [1348, 1350]), (64276, [1348, 1333]),
      (64277, [1348, 1339]), (64278, [1358, 1350]), (64279, [1348, 1341]), (65345, [65313]), (65346, [65314]),
      (65347, [65315]), (65348, [65316]), (65349, [65317]), (65350, [65318]), (65351, [65319]),
      (65352, [65320]), (65353, [65321]), (65354, [65322]), (65355, [65323]), (65356, [65324]),
      (65357, [65325]), (65358, [65326]), (65359, [65327]), (65360, [65328]), (65361, [65329]),
      (65362, [65330]), (65363, [65331]), (65364, [65332]), (65365, [65333]), (65366, [65334]),
      (65367, [65335]), (65368, [65336]), (65369, [65337]), (65370, [65338]), (66600, [66560]),
      (66601, [66561]), (66602, [66562]), (66603, [66563]), (66604, [66564]), (66605, [66565]),
      (66606, [66566]), (66607, [66567]), (66608, [66568]), (66609, [66569]), (66610, [66570])]"

definition upper_table_25 :: "(int \<times> int list) list" where
  "upper_table_25 =
     [(66611, [66571]), (66612, [66572]), (66613, [66573]), (66614, [66574]), (66615, [66575]),
      (66616, [66576]), (66617, [66577]), (66618, [66578]), (66619, [66579]), (66620, [66580]),
      (66621, [66581]), (66622, [66582]), (66623, [66583]), (66624, [66584]), (66625, [66585]),
      (66626, [66586]), (66627, [66587]), (66628, [66588]), (66629, [66589]), (66630, [66590]),
      (66631, [66591]), (66632, [66592]), (66633, [66593]), (66634, [66594]), (66635, [66595]),
      (66636, [66596]), (66637, [66597]), (66638, [66598]), (66639, [66599]), (66776, [66736]),
      (66777, [66737]), (66778, [66738]), (66779, [66739]), (66780, [66740]), (66781, [66741]),
      (66782, [66742]), (66783, [66743]), (66784, [66744]), (66785, [66745]), (66786, [66746]),
      (66787, [66747]), (66788, [66748]), (66789, [66749]), (66790, [66750]), (66791, [66751]),
      (66792, [66752]), (66793, [66753]), (66794, [66754]), (66795, [66755]), (66796, [66756])]"

definition upper_table_26 :: "(int \<times> int list) list" where
  "upper_table_26 =
     [(66797, [66757]), (66798, [66758]), (66799, [66759]), (66800, [66760]), (66801, [66761]),
      (66802, [66762]), (66803, [66763]), (66804, [66764]), (66805, [66765]), (66806, [66766]),
      (66807, [66767]), (66808, [66768]), (66809, [66769]), (66810, [66770]), (66811, [66771]),
      (66967, [66928]), (66968, [66929]), (66969, [66930]), (66970, [66931]), (66971, [66932]),
      (66972, [66933]), (66973, [66934]), (66974, [66935]), (66975, [66936]), (66976, [66937]),
      (66977, [66938]), (66979, [66940]), (66980, [66941]), (66981, [66942]), (66982, [66943]),
      (66983, [66944]), (66984, [66945]), (66985, [66946]), (66986, [66947]), (66987, [66948]),
      (66988, [66949]), (66989, [66950]), (66990, [66951]), (66991, [66952]), (66992, [66953]),
      (66993, [66954]), (66995, [66956]), (66996, [66957]), (66997, [66958]), (66998, [66959]),
      (66999, [66960]), (67000, [66961]), (67001, [66962]), (67003, [66964]), (67004, [66965])]"

definition upper_table_27 :: "(int \<times> int list) list" where
  "upper_table_27 =
     [(68800, [68736]), (68801, [68737]), (68802, [68738]), (68803, [68739]), (68804, [68740]),
      (68805, [68741]), (68806, [68742]), (68807, [68743]), (68808, [68744]), (68809, [68745]),
      (68810, [68746]), (68811, [68747]), (68812, [68748]), (68813, [68749]), (68814, [68750]),
      (68815, [68751]), (68816, [68752]), (68817, [68753]), (68818, [68754]), (68819, [68755]),
      (68820, [68756]), (68821, [68757]), (68822, [68758]), (68823, [68759]), (68824, [68760]),
      (68825, [68761]), (68826, [68762]), (68827, [68763]), (68828, [68764]), (68829, [68765]),
      (68830, [68766]), (68831, [68767]), (68832, [68768]), (68833, [68769]), (68834, [68770]),
      (68835, [68771]), (68836, [68772]), (68837, [68773]), (68838, [68774]), (68839, [68775]),
      (68840, [68776]), (68841, [68777]), (68842, [68778]), (68843, [68779]), (68844, [68780]),
      (68845, [68781]), (68846, [68782]), (68847, [68783]), (68848, [68784]), (68849, [68785])]"

definition upper_table_28 :: "(int \<times> int list) list" where
  "upper_table_28 =
     [(68850, [68786]), (71872, [71840]), (71873, [71841]), (71874, [71842]), (71875, [71843]),
      (71876, [71844]), (71877, [71845]), (71878, [71846]), (71879, [71847]), (71880, [71848]),
      (71881, [71849]), (71882, [71850]), (71883, [71851]), (71884, [71852]), (71885, [71853]),
      (71886, [71854]), (71887, [71855]), (71888, [71856]), (71889, [71857]), (71890, [71858]),
      (71891, [71859]), (71892, [71860]), (71893, [71861]), (71894, [71862]), (71895, [71863]),
      (71896, [71864]), (71897, [71865]), (71898, [71866]), (71899, [71867]), (71900, [71868]),
      (71901, [71869]), (71902, [71870]), (71903, [71871]), (93792, [93760]), (93793, [93761]),
      (93794, [93762]), (93795, [93763]), (93796, [93764]), (93797, [93765]), (93798, [93766]),
      (93799, [93767]), (93800, [93768]), (93801, [93769]), (93802, [93770]), (93803, [93771]),
      (93804, [93772]), (93805, [93773]), (93806, [93774]), (93807, [93775]), (93808, [93776])]"

definition upper_table_29 :: "(int \<times> int list) list" where
  "upper_table_29 =
     [(93809, [93777]), (93810, [93778]), (93811, [93779]), (93812, [93780]), (93813, [93781]),
      (93814, [93782]), (93815, [93783]), (93816, [93784]), (93817, [93785]), (93818, [93786]),
      (93819, [93787]), (93820, [93788]), (93821, [93789]), (93822, [93790]), (93823, [93791]),
      (125218, [125184]), (125219, [125185]), (125220, [125186]), (125221, [125187]), (125222, [125188]),
      (125223, [125189]), (125224, [125190]), (125225, [125191]), (125226, [125192]), (125227, [125193]),
      (125228, [125194]), (125229, [125195]), (125230, [125196]), (125231, [125197]), (125232, [125198]),
      (125233, [125199]), (125234, [125200]), (125235, [125201]), (125236, [125202]), (125237, [125203]),
      (125238, [125204]), (125239, [125205]), (125240, [125206]), (125241, [125207]), (125242, [125208]),
      (125243, [125209]), (125244, [125210]), (125245, [125211]), (125246, [125212]), (125247, [125213]),
      (125248, [125214]), (125249, [125215]), (125250, [125216]), (125251, [125217])]"

definition upper_lookup :: "int \<Rightarrow> int list option" where
  \<comment> \<open>The tables hold the code points in rising order; each is searched only for the
      code points below the first entry of the next.\<close>
  "upper_lookup c =
     (if c < 291 then map_of upper_table_0 c
      else if c < 392 then map_of upper_table_1 c
      else if c < 513 then map_of upper_table_2 c
      else if c < 617 then map_of upper_table_3 c
      else if c < 961 then map_of upper_table_4 c
      else if c < 1084 then map_of upper_table_5 c
      else if c < 1149 then map_of upper_table_6 c
      else if c < 1257 then map_of upper_table_7 c
      else if c < 1391 then map_of upper_table_8 c
      else if c < 4329 then map_of upper_table_9 c
      else if c < 7703 then map_of upper_table_10 c
      else if c < 7803 then map_of upper_table_11 c
      else if c < 7901 then map_of upper_table_12 c
      else if c < 8002 then map_of upper_table_13 c
      else if c < 8080 then map_of upper_table_14 c
      else if c < 8147 then map_of upper_table_15 c
      else if c < 9439 then map_of upper_table_16 c
      else if c < 11351 then map_of upper_table_17 c
      else if c < 11459 then map_of upper_table_18 c
      else if c < 11550 then map_of upper_table_19 c
      else if c < 42793 then map_of upper_table_20 c
      else if c < 42911 then map_of upper_table_21 c
      else if c < 43917 then map_of upper_table_22 c
      else if c < 43967 then map_of upper_table_23 c
      else if c < 66611 then map_of upper_table_24 c
      else if c < 66797 then map_of upper_table_25 c
      else if c < 68800 then map_of upper_table_26 c
      else if c < 68850 then map_of upper_table_27 c
      else if c < 93809 then map_of upper_table_28 c
      else map_of upper_table_29 c)"

definition upper_char :: "int \<Rightarrow> ustring" where
  "upper_char c =
     (if c < 128 then (if 97 \<le> c \<and> c \<le> 122 then [c - 32] else [c])
      else (case upper_lookup c of Some u \<Rightarrow> u | None \<Rightarrow> [c]))"

definition upper :: "ustring \<Rightarrow> ustring" where
  "upper s = concat (map upper_char s)"

subsection \<open>The representation of a text\<close>

text \<open>
  \<open>repr\<close> of a text puts it in quotes and escapes the quote, the backslash and every code
  point that is not printable. The tables list the ranges of printable code points
  from 127 on.
\<close>

definition in_ranges :: "(int \<times> int) list \<Rightarrow> int \<Rightarrow> bool" where
  "in_ranges rs c = list_ex (\<lambda>r. fst r \<le> c \<and> c \<le> snd r) rs"

definition printable_ranges_0 :: "(int \<times> int) list" where
  "printable_ranges_0 =
     [(161, 172), (174, 887), (890, 895), (900, 906), (908, 908), (910, 929),
      (931, 1327), (1329, 1366), (1369, 1418), (1421, 1423), (1425, 1479), (1488, 1514),
      (1519, 1524), (1542, 1563), (1565, 1756), (1758, 1805), (1808, 1866), (1869, 1969),
      (1984, 2042), (2045, 2093), (2096, 2110), (2112, 2139), (2142, 2142), (2144, 2154),
      (2160, 2190), (2200, 2273), (2275, 2435), (2437, 2444), (2447, 2448), (2451, 2472),
      (2474, 2480), (2482, 2482), (2486, 2489), (2492, 2500), (2503, 2504), (2507, 2510),
      (2519, 2519), (2524, 2525), (2527, 2531), (2534, 2558), (2561, 2563), (2565, 2570),
      (2575, 2576), (2579, 2600), (2602, 2608), (2610, 2611), (2613, 2614), (2616, 2617),
      (2620, 2620), (2622, 2626)]"

definition printable_ranges_1 :: "(int \<times> int) list" where
  "printable_ranges_1 =
     [(2631, 2632), (2635, 2637), (2641, 2641), (2649, 2652), (2654, 2654), (2662, 2678),
      (2689, 2691), (2693, 2701), (2703, 2705), (2707, 2728), (2730, 2736), (2738, 2739),
      (2741, 2745), (2748, 2757), (2759, 2761), (2763, 2765), (2768, 2768), (2784, 2787),
      (2790, 2801), (2809, 2815), (2817, 2819), (2821, 2828), (2831, 2832), (2835, 2856),
      (2858, 2864), (2866, 2867), (2869, 2873), (2876, 2884), (2887, 2888), (2891, 2893),
      (2901, 2903), (2908, 2909), (2911, 2915), (2918, 2935), (2946, 2947), (2949, 2954),
      (2958, 2960), (2962, 2965), (2969, 2970), (2972, 2972), (2974, 2975), (2979, 2980),
      (2984, 2986), (2990, 3001), (3006, 3010), (3014, 3016), (3018, 3021), (3024, 3024),
      (3031, 3031), (3046, 3066)]"

definition printable_ranges_2 :: "(int \<times> int) list" where
  "printable_ranges_2 =
     [(3072, 3084), (3086, 3088), (3090, 3112), (3114, 3129), (3132, 3140), (3142, 3144),
      (3146, 3149), (3157, 3158), (3160, 3162), (3165, 3165), (3168, 3171), (3174, 3183),
      (3191, 3212), (3214, 3216), (3218, 3240), (3242, 3251), (3253, 3257), (3260, 3268),
      (3270, 3272), (3274, 3277), (3285, 3286), (3293, 3294), (3296, 3299), (3302, 3311),
      (3313, 3314), (3328, 3340), (3342, 3344), (3346, 3396), (3398, 3400), (3402, 3407),
      (3412, 3427), (3430, 3455), (3457, 3459), (3461, 3478), (3482, 3505), (3507, 3515),
      (3517, 3517), (3520, 3526), (3530, 3530), (3535, 3540), (3542, 3542), (3544, 3551),
      (3558, 3567), (3570, 3572), (3585, 3642), (3647, 3675), (3713, 3714), (3716, 3716),
      (3718, 3722), (3724, 3747)]"

definition printable_ranges_3 :: "(int \<times> int) list" where
  "printable_ranges_3 =
     [(3749, 3749), (3751, 3773), (3776, 3780), (3782, 3782), (3784, 3789), (3792, 3801),
      (3804, 3807), (3840, 3911), (3913, 3948), (3953, 3991), (3993, 4028), (4030, 4044),
      (4046, 4058), (4096, 4293), (4295, 4295), (4301, 4301), (4304, 4680), (4682, 4685),
      (4688, 4694), (4696, 4696), (4698, 4701), (4704, 4744), (4746, 4749), (4752, 4784),
      (4786, 4789), (4792, 4798), (4800, 4800), (4802, 4805), (4808, 4822), (4824, 4880),
      (4882, 4885), (4888, 4954), (4957, 4988), (4992, 5017), (5024, 5109), (5112, 5117),
      (5120, 5759), (5761, 5788), (5792, 5880), (5888, 5909), (5919, 5942), (5952, 5971),
      (5984, 5996), (5998, 6000), (6002, 6003), (6016, 6109), (6112, 6121), (6128, 6137),
      (6144, 6157), (6159, 6169)]"

definition printable_ranges_4 :: "(int \<times> int) list" where
  "printable_ranges_4 =
     [(6176, 6264), (6272, 6314), (6320, 6389), (6400, 6430), (6432, 6443), (6448, 6459),
      (6464, 6464), (6468, 6509), (6512, 6516), (6528, 6571), (6576, 6601), (6608, 6618),
      (6622, 6683), (6686, 6750), (6752, 6780), (6783, 6793), (6800, 6809), (6816, 6829),
      (6832, 6862), (6912, 6988), (6992, 7038), (7040, 7155), (7164, 7223), (7227, 7241),
      (7245, 7304), (7312, 7354), (7357, 7367), (7376, 7418), (7424, 7957), (7960, 7965),
      (7968, 8005), (8008, 8013), (8016, 8023), (8025, 8025), (8027, 8027), (8029, 8029),
      (8031, 8061), (8064, 8116), (8118, 8132), (8134, 8147), (8150, 8155), (8157, 8175),
      (8178, 8180), (8182, 8190), (8208, 8231), (8240, 8286), (8304, 8305), (8308, 8334),
      (8336, 8348), (8352, 8384)]"

definition printable_ranges_5 :: "(int \<times> int) list" where
  "printable_ranges_5 =
     [(8400, 8432), (8448, 8587), (8592, 9254), (9280, 9290), (9312, 11123), (11126, 11157),
      (11159, 11507), (11513, 11557), (11559, 11559), (11565, 11565), (11568, 11623), (11631, 11632),
      (11647, 11670), (11680, 11686), (11688, 11694), (11696, 11702), (11704, 11710), (11712, 11718),
      (11720, 11726), (11728, 11734), (11736, 11742), (11744, 11869), (11904, 11929), (11931, 12019),
      (12032, 12245), (12272, 12283), (12289, 12351), (12353, 12438), (12441, 12543), (12549, 12591),
      (12593, 12686), (12688, 12771), (12784, 12830), (12832, 42124), (42128, 42182), (42192, 42539),
      (42560, 42743), (42752, 42954), (42960, 42961), (42963, 42963), (42965, 42969), (42994, 43052),
      (43056, 43065), (43072, 43127), (43136, 43205), (43214, 43225), (43232, 43347), (43359, 43388),
      (43392, 43469), (43471, 43481)]"

definition printable_ranges_6 :: "(int \<times> int) list" where
  "printable_ranges_6 =
     [(43486, 43518), (43520, 43574), (43584, 43597), (43600, 43609), (43612, 43714), (43739, 43766),
      (43777, 43782), (43785, 43790), (43793, 43798), (43808, 43814), (43816, 43822), (43824, 43883),
      (43888, 44013), (44016, 44025), (44032, 55203), (55216, 55238), (55243, 55291), (63744, 64109),
      (64112, 64217), (64256, 64262), (64275, 64279), (64285, 64310), (64312, 64316), (64318, 64318),
      (64320, 64321), (64323, 64324), (64326, 64450), (64467, 64911), (64914, 64967), (64975, 64975),
      (65008, 65049), (65056, 65106), (65108, 65126), (65128, 65131), (65136, 65140), (65142, 65276),
      (65281, 65470), (65474, 65479), (65482, 65487), (65490, 65495), (65498, 65500), (65504, 65510),
      (65512, 65518), (65532, 65533), (65536, 65547), (65549, 65574), (65576, 65594), (65596, 65597),
      (65599, 65613), (65616, 65629)]"

definition printable_ranges_7 :: "(int \<times> int) list" where
  "printable_ranges_7 =
     [(65664, 65786), (65792, 65794), (65799, 65843), (65847, 65934), (65936, 65948), (65952, 65952),
      (66000, 66045), (66176, 66204), (66208, 66256), (66272, 66299), (66304, 66339), (66349, 66378),
      (66384, 66426), (66432, 66461), (66463, 66499), (66504, 66517), (66560, 66717), (66720, 66729),
      (66736, 66771), (66776, 66811), (66816, 66855), (66864, 66915), (66927, 66938), (66940, 66954),
      (66956, 66962), (66964, 66965), (66967, 66977), (66979, 66993), (66995, 67001), (67003, 67004),
      (67072, 67382), (67392, 67413), (67424, 67431), (67456, 67461), (67463, 67504), (67506, 67514),
      (67584, 67589), (67592, 67592), (67594, 67637), (67639, 67640), (67644, 67644), (67647, 67669),
      (67671, 67742), (67751, 67759), (67808, 67826), (67828, 67829), (67835, 67867), (67871, 67897),
      (67903, 67903), (67968, 68023)]"

definition printable_ranges_8 :: "(int \<times> int) list" where
  "printable_ranges_8 =
     [(68028, 68047), (68050, 68099), (68101, 68102), (68108, 68115), (68117, 68119), (68121, 68149),
      (68152, 68154), (68159, 68168), (68176, 68184), (68192, 68255), (68288, 68326), (68331, 68342),
      (68352, 68405), (68409, 68437), (68440, 68466), (68472, 68497), (68505, 68508), (68521, 68527),
      (68608, 68680), (68736, 68786), (68800, 68850), (68858, 68903), (68912, 68921), (69216, 69246),
      (69248, 69289), (69291, 69293), (69296, 69297), (69376, 69415), (69424, 69465), (69488, 69513),
      (69552, 69579), (69600, 69622), (69632, 69709), (69714, 69749), (69759, 69820), (69822, 69826),
      (69840, 69864), (69872, 69881), (69888, 69940), (69942, 69959), (69968, 70006), (70016, 70111),
      (70113, 70132), (70144, 70161), (70163, 70206), (70272, 70278), (70280, 70280), (70282, 70285),
      (70287, 70301), (70303, 70313)]"

definition printable_ranges_9 :: "(int \<times> int) list" where
  "printable_ranges_9 =
     [(70320, 70378), (70384, 70393), (70400, 70403), (70405, 70412), (70415, 70416), (70419, 70440),
      (70442, 70448), (70450, 70451), (70453, 70457), (70459, 70468), (70471, 70472), (70475, 70477),
      (70480, 70480), (70487, 70487), (70493, 70499), (70502, 70508), (70512, 70516), (70656, 70747),
      (70749, 70753), (70784, 70855), (70864, 70873), (71040, 71093), (71096, 71133), (71168, 71236),
      (71248, 71257), (71264, 71276), (71296, 71353), (71360, 71369), (71424, 71450), (71453, 71467),
      (71472, 71494), (71680, 71739), (71840, 71922), (71935, 71942), (71945, 71945), (71948, 71955),
      (71957, 71958), (71960, 71989), (71991, 71992), (71995, 72006), (72016, 72025), (72096, 72103),
      (72106, 72151), (72154, 72164), (72192, 72263), (72272, 72354), (72368, 72440), (72704, 72712),
      (72714, 72758), (72760, 72773)]"

definition printable_ranges_10 :: "(int \<times> int) list" where
  "printable_ranges_10 =
     [(72784, 72812), (72816, 72847), (72850, 72871), (72873, 72886), (72960, 72966), (72968, 72969),
      (72971, 73014), (73018, 73018), (73020, 73021), (73023, 73031), (73040, 73049), (73056, 73061),
      (73063, 73064), (73066, 73102), (73104, 73105), (73107, 73112), (73120, 73129), (73440, 73464),
      (73648, 73648), (73664, 73713), (73727, 74649), (74752, 74862), (74864, 74868), (74880, 75075),
      (77712, 77810), (77824, 78894), (82944, 83526), (92160, 92728), (92736, 92766), (92768, 92777),
      (92782, 92862), (92864, 92873), (92880, 92909), (92912, 92917), (92928, 92997), (93008, 93017),
      (93019, 93025), (93027, 93047), (93053, 93071), (93760, 93850), (93952, 94026), (94031, 94087),
      (94095, 94111), (94176, 94180), (94192, 94193), (94208, 100343), (100352, 101589), (101632, 101640),
      (110576, 110579), (110581, 110587)]"

definition printable_ranges_11 :: "(int \<times> int) list" where
  "printable_ranges_11 =
     [(110589, 110590), (110592, 110882), (110928, 110930), (110948, 110951), (110960, 111355), (113664, 113770),
      (113776, 113788), (113792, 113800), (113808, 113817), (113820, 113823), (118528, 118573), (118576, 118598),
      (118608, 118723), (118784, 119029), (119040, 119078), (119081, 119154), (119163, 119274), (119296, 119365),
      (119520, 119539), (119552, 119638), (119648, 119672), (119808, 119892), (119894, 119964), (119966, 119967),
      (119970, 119970), (119973, 119974), (119977, 119980), (119982, 119993), (119995, 119995), (119997, 120003),
      (120005, 120069), (120071, 120074), (120077, 120084), (120086, 120092), (120094, 120121), (120123, 120126),
      (120128, 120132), (120134, 120134), (120138, 120144), (120146, 120485), (120488, 120779), (120782, 121483),
      (121499, 121503), (121505, 121519), (122624, 122654), (122880, 122886), (122888, 122904), (122907, 122913),
      (122915, 122916), (122918, 122922)]"

definition printable_ranges_12 :: "(int \<times> int) list" where
  "printable_ranges_12 =
     [(123136, 123180), (123184, 123197), (123200, 123209), (123214, 123215), (123536, 123566), (123584, 123641),
      (123647, 123647), (124896, 124902), (124904, 124907), (124909, 124910), (124912, 124926), (124928, 125124),
      (125127, 125142), (125184, 125259), (125264, 125273), (125278, 125279), (126065, 126132), (126209, 126269),
      (126464, 126467), (126469, 126495), (126497, 126498), (126500, 126500), (126503, 126503), (126505, 126514),
      (126516, 126519), (126521, 126521), (126523, 126523), (126530, 126530), (126535, 126535), (126537, 126537),
      (126539, 126539), (126541, 126543), (126545, 126546), (126548, 126548), (126551, 126551), (126553, 126553),
      (126555, 126555), (126557, 126557), (126559, 126559), (126561, 126562), (126564, 126564), (126567, 126570),
      (126572, 126578), (126580, 126583), (126585, 126588), (126590, 126590), (126592, 126601), (126603, 126619),
      (126625, 126627), (126629, 126633)]"

definition printable_ranges_13 :: "(int \<times> int) list" where
  "printable_ranges_13 =
     [(126635, 126651), (126704, 126705), (126976, 127019), (127024, 127123), (127136, 127150), (127153, 127167),
      (127169, 127183), (127185, 127221), (127232, 127405), (127462, 127490), (127504, 127547), (127552, 127560),
      (127568, 127569), (127584, 127589), (127744, 128727), (128733, 128748), (128752, 128764), (128768, 128883),
      (128896, 128984), (128992, 129003), (129008, 129008), (129024, 129035), (129040, 129095), (129104, 129113),
      (129120, 129159), (129168, 129197), (129200, 129201), (129280, 129619), (129632, 129645), (129648, 129652),
      (129656, 129660), (129664, 129670), (129680, 129708), (129712, 129722), (129728, 129733), (129744, 129753),
      (129760, 129767), (129776, 129782), (129792, 129938), (129940, 129994), (130032, 130041), (131072, 173791),
      (173824, 177976), (177984, 178205), (178208, 183969), (183984, 191456), (194560, 195101), (196608, 201546),
      (917760, 917999)]"

definition is_printable :: "int \<Rightarrow> bool" where
  \<comment> \<open>\<open>str.isprintable\<close> of a code point from 127 on.\<close>
  "is_printable c =
     (if c < 2631 then in_ranges printable_ranges_0 c
      else if c < 3072 then in_ranges printable_ranges_1 c
      else if c < 3749 then in_ranges printable_ranges_2 c
      else if c < 6176 then in_ranges printable_ranges_3 c
      else if c < 8400 then in_ranges printable_ranges_4 c
      else if c < 43486 then in_ranges printable_ranges_5 c
      else if c < 65664 then in_ranges printable_ranges_6 c
      else if c < 68028 then in_ranges printable_ranges_7 c
      else if c < 70320 then in_ranges printable_ranges_8 c
      else if c < 72784 then in_ranges printable_ranges_9 c
      else if c < 110589 then in_ranges printable_ranges_10 c
      else if c < 123136 then in_ranges printable_ranges_11 c
      else if c < 126635 then in_ranges printable_ranges_12 c
      else in_ranges printable_ranges_13 c)"

definition hex_digit :: "int \<Rightarrow> int" where
  "hex_digit d = (if d < 10 then 48 + d else 87 + d)"

fun hex :: "nat \<Rightarrow> int \<Rightarrow> ustring" where
  \<comment> \<open>\<open>hex w n\<close>: the last \<open>w\<close> hexadecimal digits of \<open>n\<close>, in lower case.\<close>
  "hex 0 n = []"
| "hex (Suc w) n = hex w (n div 16) @ [hex_digit (n mod 16)]"

definition repr_quote :: "ustring \<Rightarrow> int" where
  \<comment> \<open>The single quote (39), unless the text holds a single quote and no double
      quote (34).\<close>
  "repr_quote s = (if 39 \<in> set s \<and> 34 \<notin> set s then 34 else 39)"

definition repr_char :: "int \<Rightarrow> int \<Rightarrow> ustring" where
  \<comment> \<open>92 is the backslash; 116, 110, 114, 120, 117 and 85 are the letters t, n, r, x,
      u and U.\<close>
  "repr_char q c =
     (if c = q \<or> c = 92 then [92, c]
      else if c = 9 then [92, 116]
      else if c = 10 then [92, 110]
      else if c = 13 then [92, 114]
      else if c < 32 \<or> c = 127 then [92, 120] @ hex 2 c
      else if c < 127 then [c]
      else if is_printable c then [c]
      else if c \<le> 255 then [92, 120] @ hex 2 c
      else if c \<le> 65535 then [92, 117] @ hex 4 c
      else [92, 85] @ hex 8 c)"

definition repr_str :: "ustring \<Rightarrow> ustring" where
  "repr_str s = (let q = repr_quote s in q # concat (map (repr_char q) s) @ [q])"

section \<open>The decoded JSON value\<close>

text \<open>
  What \<open>json.loads\<close> returns: \<open>None\<close>, a \<open>bool\<close>, an \<open>int\<close>, a \<open>float\<close>, a \<open>str\<close>,
  a \<open>list\<close> or a \<open>dict\<close> with text keys. A float is kept as what the code can observe
  of it: whether it is nonzero (its truth value) and its \<open>repr\<close>. A dict is kept as its
  items in insertion order; where a key is repeated in the list, the first binding is
  the dict's.
\<close>

datatype json =
    JNull
  | JBool bool
  | JInt int
  | JFloat bool ustring
  | JStr ustring
  | JList "json list"
  | JDict "(ustring \<times> json) list"

fun dict_items :: "(ustring \<times> 'a) list \<Rightarrow> (ustring \<times> 'a) list" where
  "dict_items [] = []"
| "dict_items ((k, v) # kvs) = (k, v) # filter (\<lambda>kv. fst kv \<noteq> k) (dict_items kvs)"

definition dict_keys :: "(ustring \<times> 'a) list \<Rightarrow> ustring list" where
  "dict_keys kvs = map fst (dict_items kvs)"

definition dict_get :: "(ustring \<times> json) list \<Rightarrow> ustring \<Rightarrow> json \<Rightarrow> json" where
  \<comment> \<open>\<open>d.get(k, default)\<close>\<close>
  "dict_get kvs k dflt = (case map_of kvs k of Some v \<Rightarrow> v | None \<Rightarrow> dflt)"

fun type_name :: "json \<Rightarrow> string" where
  "type_name JNull = ''NoneType''"
| "type_name (JBool b) = ''bool''"
| "type_name (JInt i) = ''int''"
| "type_name (JFloat nz r) = ''float''"
| "type_name (JStr s) = ''str''"
| "type_name (JList xs) = ''list''"
| "type_name (JDict kvs) = ''dict''"

fun truthy :: "json \<Rightarrow> bool" where
  "truthy JNull = False"
| "truthy (JBool b) = b"
| "truthy (JInt i) = (i \<noteq> 0)"
| "truthy (JFloat nz r) = nz"
| "truthy (JStr s) = (s \<noteq> [])"
| "truthy (JList xs) = (xs \<noteq> [])"
| "truthy (JDict kvs) = (kvs \<noteq> [])"

fun py_repr :: "json \<Rightarrow> ustring" where
  "py_repr JNull = lit ''None''"
| "py_repr (JBool b) = (if b then lit ''True'' else lit ''False'')"
| "py_repr (JInt i) = str_int i"
| "py_repr (JFloat nz r) = r"
| "py_repr (JStr s) = repr_str s"
| "py_repr (JList xs) = lit ''['' @ join (lit '', '') (map py_repr xs) @ lit '']''"
| "py_repr (JDict kvs) =
     lit ''{'' @ join (lit '', '') (map (\<lambda>kr. repr_str (fst kr) @ lit '': '' @ snd kr)
                              (dict_items (map (\<lambda>kv. (fst kv, py_repr (snd kv))) kvs))) @ lit ''}''"

definition py_str :: "json \<Rightarrow> ustring" where
  \<comment> \<open>\<open>str(v)\<close>: the text itself for a text, \<open>repr\<close> for everything else.\<close>
  "py_str v = (case v of JStr s \<Rightarrow> s | _ \<Rightarrow> py_repr v)"

section \<open>Exceptions\<close>

text \<open>An exception is kept as its class and its message.\<close>

datatype error =
    TypeError string
  | AttributeError string

section \<open>The schema\<close>

record MCQ =
  question :: ustring
  options :: "ustring list"
  answer :: ustring

record Flashcard =
  front :: ustring
  "back" :: ustring

record StudyData =
  "notes" :: "ustring list"
  mcqs :: "MCQ list"
  flashcards :: "Flashcard list"

section \<open>clean\_json\_response\<close>

text \<open>
  \<open>re.sub(marker + r'\s*', '', text)\<close> for a literal, non-empty marker: scanning from
  the left, every occurrence of the marker is deleted together with the whitespace that
  follows it, and the scan goes on behind the deleted part.
\<close>

function re_sub_marker :: "ustring \<Rightarrow> ustring \<Rightarrow> ustring" where
  "re_sub_marker p [] = []"
| "re_sub_marker p (c # cs) =
     (if p \<noteq> [] \<and> prefix p (c # cs)
      then re_sub_marker p (dropWhile is_space (drop (length p) (c # cs)))
      else c # re_sub_marker p cs)"
  by pat_completeness auto
termination
proof (relation "measure (\<lambda>(p, t). length t)", goal_cases)
  case 1
  show ?case by simp
next
  case (2 p c cs)
  have "length (dropWhile is_space (drop (length p) (c # cs))) \<le> length (drop (length p) (c # cs))"
    by (rule length_dropWhile_le)
  moreover from 2 have "length (drop (length p) (c # cs)) < length (c # cs)"
    by (cases p) auto
  ultimately show ?case by simp
next
  case 3
  show ?case by simp
qed

definition fence :: ustring where
  "fence = lit ''```''"

definition fence_json :: ustring where
  "fence_json = lit ''```json''"

definition clean_json_response :: "ustring \<Rightarrow> ustring" where
  "clean_json_response response_text =
     strip (re_sub_marker fence (re_sub_marker fence_json response_text))"

definition clean_json_response_on :: "json \<Rightarrow> error + ustring" where
  \<comment> \<open>The call on any value: \<open>re.sub\<close> raises a TypeError unless its argument is a
      text, and on a text neither the substitutions nor \<open>strip\<close> raise.\<close>
  "clean_json_response_on v =
     (case v of
        JStr response_text \<Rightarrow> Inr (clean_json_response response_text)
      | _ \<Rightarrow> Inl (TypeError (''expected string or bytes-like object, got '' @ [CHR 0x27] @ type_name v @ [CHR 0x27])))"

section \<open>validate\_study\_data\<close>

definition py_len :: "json \<Rightarrow> error + nat" where
  \<comment> \<open>\<open>len(v)\<close>\<close>
  "py_len v =
     (case v of
        JList xs \<Rightarrow> Inr (length xs)
      | JStr s \<Rightarrow> Inr (length s)
      | JDict kvs \<Rightarrow> Inr (length (dict_keys kvs))
      | _ \<Rightarrow> Inl (TypeError (''object of type '' @ [CHR 0x27] @ type_name v @ [CHR 0x27] @ '' has no len()'')))"

definition placeholder :: "nat \<Rightarrow> ustring" where
  \<comment> \<open>\<open>f"{chr(65 + n)}) Option {n + 1}"\<close>\<close>
  "placeholder n = (65 + int n) # lit '') Option '' @ str_int (int n + 1)"

function pad_options :: "json list \<Rightarrow> json list" where
  \<comment> \<open>The loop \<open>while len(options) < 4: options.append(...)\<close> on a list.\<close>
  "pad_options xs =
     (if length xs < 4 then pad_options (xs @ [JStr (placeholder (length xs))]) else xs)"
  by pat_completeness auto
termination
  by (relation "measure (\<lambda>xs. 4 - length xs)") auto

declare pad_options.simps [simp del]

definition pad_loop :: "json \<Rightarrow> error + json" where
  \<comment> \<open>The same loop on any value: only a list has \<open>append\<close>.\<close>
  "pad_loop v =
     (case py_len v of
        Inl e \<Rightarrow> Inl e
      | Inr n \<Rightarrow>
          if n < 4 then
            (case v of
               JList xs \<Rightarrow> Inr (JList (pad_options xs))
             | _ \<Rightarrow> Inl (AttributeError ([CHR 0x27] @ type_name v @ [CHR 0x27] @ '' object has no attribute '' @ [CHR 0x27] @ ''append'' @ [CHR 0x27])))
          else Inr v)"

definition slice4 :: "json \<Rightarrow> error + json" where
  \<comment> \<open>\<open>v[:4]\<close>\<close>
  "slice4 v =
     (case v of
        JList xs \<Rightarrow> Inr (JList (take 4 xs))
      | JStr s \<Rightarrow> Inr (JStr (take 4 s))
      | JDict kvs \<Rightarrow> Inl (TypeError (''unhashable type: '' @ [CHR 0x27] @ ''slice'' @ [CHR 0x27]))
      | _ \<Rightarrow> Inl (TypeError ([CHR 0x27] @ type_name v @ [CHR 0x27] @ '' object is not subscriptable'')))"

definition py_iter :: "json \<Rightarrow> error + json list" where
  \<comment> \<open>The elements a \<open>for\<close> over the value yields: the items of a list, the
      one-character texts of a text, the keys of a dict.\<close>
  "py_iter v =
     (case v of
        JList xs \<Rightarrow> Inr xs
      | JStr s \<Rightarrow> Inr (map (\<lambda>c. JStr [c]) s)
      | JDict kvs \<Rightarrow> Inr (map JStr (dict_keys kvs))
      | _ \<Rightarrow> Inl (TypeError ([CHR 0x27] @ type_name v @ [CHR 0x27] @ '' object is not iterable'')))"

definition fix_options :: "json \<Rightarrow> error + json" where
  \<comment> \<open>Lines 134 to 138: the value bound to \<open>options\<close> after the \<open>if\<close>.\<close>
  "fix_options v =
     (case py_len v of
        Inl e \<Rightarrow> Inl e
      | Inr n \<Rightarrow>
          if n \<noteq> 4 then
            (case pad_loop v of Inl e \<Rightarrow> Inl e | Inr v' \<Rightarrow> slice4 v')
          else Inr v)"

definition validate_mcq :: "(ustring \<times> json) list \<Rightarrow> error + MCQ" where
  \<comment> \<open>The body of the loop over \<open>mcqs[:5]\<close> for an element that is a dict.\<close>
  "validate_mcq mcq =
     (case fix_options (dict_get mcq (lit ''options'') (JList [])) of
        Inl e \<Rightarrow> Inl e
      | Inr v \<Rightarrow>
          (case py_iter v of
             Inl e \<Rightarrow> Inl e
           | Inr opts \<Rightarrow>
               Inr \<lparr>question = py_str (dict_get mcq (lit ''question'') (JStr (lit ''Question''))),
                    options = map py_str opts,
                    answer = upper (py_str (dict_get mcq (lit ''answer'') (JStr (lit ''A''))))\<rparr>))"

fun validate_mcqs :: "json list \<Rightarrow> error + MCQ list" where
  \<comment> \<open>The loop: elements that are not dicts are skipped, the first exception ends it.\<close>
  "validate_mcqs [] = Inr []"
| "validate_mcqs (JDict mcq # rest) =
     (case validate_mcq mcq of
        Inl e \<Rightarrow> Inl e
      | Inr m \<Rightarrow> (case validate_mcqs rest of Inl e \<Rightarrow> Inl e | Inr ms \<Rightarrow> Inr (m # ms)))"
| "validate_mcqs (_ # rest) = validate_mcqs rest"

fun validate_flashcards :: "json list \<Rightarrow> Flashcard list" where
  "validate_flashcards [] = []"
| "validate_flashcards (JDict c # rest) =
     \<lparr>front = py_str (dict_get c (lit ''front'') (JStr (lit ''Question''))),
      back = py_str (dict_get c (lit ''back'') (JStr (lit ''Answer'')))\<rparr> # validate_flashcards rest"
| "validate_flashcards (_ # rest) = validate_flashcards rest"

definition validate_notes :: "(ustring \<times> json) list \<Rightarrow> ustring list" where
  "validate_notes d =
     (let v = dict_get d (lit ''notes'') (JList []);
          xs = (case v of JList xs \<Rightarrow> xs | _ \<Rightarrow> [JStr (py_str v)])
      in map py_str (filter truthy xs))"

definition list_or_empty :: "json \<Rightarrow> json list" where
  \<comment> \<open>\<open>if not isinstance(v, list): v = []\<close>\<close>
  "list_or_empty v = (case v of JList xs \<Rightarrow> xs | _ \<Rightarrow> [])"

definition validate_study_data :: "json \<Rightarrow> error + StudyData" where
  "validate_study_data d =
     (case d of
        JDict kvs \<Rightarrow>
          (let ns = validate_notes kvs in
           case validate_mcqs (take 5 (list_or_empty (dict_get kvs (lit ''mcqs'') (JList [])))) of
             Inl e \<Rightarrow> Inl e
           | Inr ms \<Rightarrow>
               Inr \<lparr>notes = ns, mcqs = ms,
                    flashcards = validate_flashcards (take 3 (list_or_empty (dict_get kvs (lit ''flashcards'') (JList []))))\<rparr>)
      | _ \<Rightarrow> Inl (AttributeError ([CHR 0x27] @ type_name d @ [CHR 0x27] @ '' object has no attribute '' @ [CHR 0x27] @ ''get'' @ [CHR 0x27])))"

section \<open>Notions used in the statements\<close>

fun dicts_of :: "json list \<Rightarrow> (ustring \<times> json) list list" where
  "dicts_of [] = []"
| "dicts_of (JDict m # rest) = m # dicts_of rest"
| "dicts_of (_ # rest) = dicts_of rest"

definition mcq_mappings :: "json \<Rightarrow> (ustring \<times> json) list list" where
  \<comment> \<open>The mcq mappings the loop visits: the dicts among the first five elements of the
      \<open>mcqs\<close> list of the input.\<close>
  "mcq_mappings d =
     (case d of
        JDict kvs \<Rightarrow> dicts_of (take 5 (list_or_empty (dict_get kvs (lit ''mcqs'') (JList []))))
      | _ \<Rightarrow> [])"

definition is_lower_letter :: "int \<Rightarrow> bool" where
  \<comment> \<open>The letters a to z.\<close>
  "is_lower_letter c = (97 \<le> c \<and> c \<le> 122)"

definition is_upper_letter :: "int \<Rightarrow> bool" where
  \<comment> \<open>The letters A to Z.\<close>
  "is_upper_letter c = (65 \<le> c \<and> c \<le> 90)"

definition single_upper_letter :: "ustring \<Rightarrow> bool" where
  "single_upper_letter s = (case s of [c] \<Rightarrow> is_upper_letter c | _ \<Rightarrow> False)"

definition spec_options :: "json list \<Rightarrow> ustring list" where
  \<comment> \<open>The specification's rule for a list of options: fewer than four are followed by
      the placeholders of the missing positions, more than four are cut to the first
      four.\<close>
  "spec_options os =
     (if length os < 4
      then map py_str os @ drop (length os) [lit ''A) Option 1'', lit ''B) Option 2'', lit ''C) Option 3'', lit ''D) Option 4'']
      else map py_str (take 4 os))"

definition spec_answer :: "(ustring \<times> json) list \<Rightarrow> ustring" where
  \<comment> \<open>The specification's rule for the answer: "A" when the field is absent, the
      uppercased text of the field otherwise.\<close>
  "spec_answer m = (case map_of m (lit ''answer'') of None \<Rightarrow> lit ''A'' | Some v \<Rightarrow> upper (py_str v))"

fun mcq_conforms :: "json \<Rightarrow> MCQ \<Rightarrow> bool" where
  \<comment> \<open>The input element is a mapping that holds the values of the mcq as texts, with
      exactly four options and an answer that uppercasing leaves as it is.\<close>
  "mcq_conforms (JDict kv) q =
     (map_of kv (lit ''question'') = Some (JStr (question q))
      \<and> map_of kv (lit ''options'') = Some (JList (map JStr (options q)))
      \<and> length (options q) = 4
      \<and> map_of kv (lit ''answer'') = Some (JStr (answer q))
      \<and> upper (answer q) = answer q)"
| "mcq_conforms _ q = False"

fun card_conforms :: "json \<Rightarrow> Flashcard \<Rightarrow> bool" where
  "card_conforms (JDict kv) c =
     (map_of kv (lit ''front'') = Some (JStr (front c)) \<and> map_of kv (lit ''back'') = Some (JStr (back c)))"
| "card_conforms _ c = False"

definition conformant :: "json \<Rightarrow> StudyData \<Rightarrow> bool" where
  \<comment> \<open>\<open>conformant d sd\<close>: the input \<open>d\<close> has the shape of the output schema and holds the
      values of \<open>sd\<close>.\<close>
  "conformant d sd =
     (case d of
        JDict kvs \<Rightarrow>
          map_of kvs (lit ''notes'') = Some (JList (map JStr (notes sd)))
          \<and> list_all (\<lambda>n. n \<noteq> []) (notes sd)
          \<and> (case map_of kvs (lit ''mcqs'') of
                Some (JList js) \<Rightarrow> list_all2 mcq_conforms js (mcqs sd)
              | _ \<Rightarrow> False)
          \<and> length (mcqs sd) \<le> 5
          \<and> (case map_of kvs (lit ''flashcards'') of
                Some (JList js) \<Rightarrow> list_all2 card_conforms js (flashcards sd)
              | _ \<Rightarrow> False)
          \<and> length (flashcards sd) \<le> 3
      | _ \<Rightarrow> False)"

definition answers_of :: "error + StudyData \<Rightarrow> ustring list" where
  \<comment> \<open>The answers of the mcqs of a returned StudyData, in order.\<close>
  "answers_of r = (case r of Inr sd \<Rightarrow> map answer (mcqs sd) | Inl e \<Rightarrow> [])"

definition table_no_lower :: "(int \<times> int list) list \<Rightarrow> bool" where
  \<comment> \<open>No entry of the table maps to a letter a to z.\<close>
  "table_no_lower t = list_all (\<lambda>kv. list_all (\<lambda>x. \<not> is_lower_letter x) (snd kv)) t"

section \<open>Helper lemmas\<close>

subsection \<open>Uppercasing and placeholders\<close>

lemma upper_tables_no_lower:
  "table_no_lower upper_table_0" "table_no_lower upper_table_1" "table_no_lower upper_table_2" "table_no_lower upper_table_3" "table_no_lower upper_table_4" "table_no_lower upper_table_5" "table_no_lower upper_table_6" "table_no_lower upper_table_7" "table_no_lower upper_table_8" "table_no_lower upper_table_9" "table_no_lower upper_table_10" "table_no_lower upper_table_11" "table_no_lower upper_table_12" "table_no_lower upper_table_13" "table_no_lower upper_table_14" "table_no_lower upper_table_15" "table_no_lower upper_table_16" "table_no_lower upper_table_17" "table_no_lower upper_table_18" "table_no_lower upper_table_19" "table_no_lower upper_table_20" "table_no_lower upper_table_21" "table_no_lower upper_table_22" "table_no_lower upper_table_23" "table_no_lower upper_table_24" "table_no_lower upper_table_25" "table_no_lower upper_table_26" "table_no_lower upper_table_27" "table_no_lower upper_table_28" "table_no_lower upper_table_29"
  by code_simp+

lemma upper_lookup_no_lower:
  assumes "upper_lookup c = Some u"
  shows "list_all (\<lambda>x. \<not> is_lower_letter x) u"
proof -
  from assms obtain t where t: "table_no_lower t" and m: "map_of t c = Some u"
    unfolding upper_lookup_def using upper_tables_no_lower by (auto split: if_splits)
  from m have "(c, u) \<in> set t" by (rule map_of_SomeD)
  with t show ?thesis by (auto simp: table_no_lower_def list_all_iff)
qed

lemma upper_char_no_lower: "x \<in> set (upper_char c) \<Longrightarrow> \<not> is_lower_letter x"
proof (cases "c < 128")
  case True
  assume "x \<in> set (upper_char c)"
  with True show ?thesis by (auto simp: upper_char_def is_lower_letter_def split: if_splits)
next
  case False
  assume x: "x \<in> set (upper_char c)"
  show ?thesis
  proof (cases "upper_lookup c")
    case None
    with False x have "x = c" by (simp add: upper_char_def)
    with False show ?thesis by (simp add: is_lower_letter_def)
  next
    case (Some u)
    with False x have "x \<in> set u" by (simp add: upper_char_def)
    with upper_lookup_no_lower [OF Some] show ?thesis by (simp add: list_all_iff)
  qed
qed

lemma upper_no_lower: "c \<in> set (upper s) \<Longrightarrow> \<not> is_lower_letter c"
  by (auto simp: upper_def dest: upper_char_no_lower)

lemma upper_A: "upper (lit ''A'') = lit ''A''"
  by code_simp

lemma placeholder_values:
  "placeholder 0 = lit ''A) Option 1''" "placeholder 1 = lit ''B) Option 2''"
  "placeholder (Suc 0) = lit ''B) Option 2''" "placeholder 2 = lit ''C) Option 3''"
  "placeholder 3 = lit ''D) Option 4''"
  by code_simp+

lemma placeholders_from:
  "n < 4 \<Longrightarrow> map placeholder [n..<4] =
     drop n [lit ''A) Option 1'', lit ''B) Option 2'', lit ''C) Option 3'', lit ''D) Option 4'']"
proof -
  assume "n < 4"
  then consider "n = 0" | "n = 1" | "n = 2" | "n = 3" by linarith
  then show ?thesis
  proof cases
    case 1
    have "[0..<4] = [0, 1, 2, 3::nat]" by (simp add: upt_conv_Cons)
    with 1 show ?thesis by (simp add: placeholder_values)
  next
    case 2
    have "[1..<4] = [1, 2, 3::nat]" by (simp add: upt_conv_Cons)
    with 2 show ?thesis by (simp add: placeholder_values)
  next
    case 3
    have "[2..<4] = [2, 3::nat]" by (simp add: upt_conv_Cons)
    with 3 show ?thesis by (simp add: placeholder_values)
  next
    case 4
    have "[3..<4] = [3::nat]" by (simp add: upt_conv_Cons)
    with 4 show ?thesis by (simp add: placeholder_values)
  qed
qed

subsection \<open>The options of one mcq\<close>

lemma length_pad_options: "length (pad_options xs) = max 4 (length xs)"
proof (induction xs rule: pad_options.induct)
  case (1 xs)
  show ?case
  proof (cases "length xs < 4")
    case True
    with 1 show ?thesis by (subst pad_options.simps) simp
  next
    case False
    then show ?thesis by (subst pad_options.simps) simp
  qed
qed

lemma pad_options_eq:
  "pad_options xs = xs @ map (\<lambda>n. JStr (placeholder n)) [length xs..<4]"
proof (induction xs rule: pad_options.induct)
  case (1 xs)
  show ?case
  proof (cases "length xs < 4")
    case True
    with 1 show ?thesis by (subst pad_options.simps) (simp add: upt_conv_Cons)
  next
    case False
    then show ?thesis by (subst pad_options.simps) simp
  qed
qed

lemma fix_options_iter_length:
  assumes "fix_options v = Inr v'" and "py_iter v' = Inr opts"
  shows "length opts = 4"
proof (cases v)
  case (JList xs)
  have "length (take 4 (pad_options xs)) = 4"
    by (simp add: length_pad_options)
  with JList assms show ?thesis
    by (auto simp: fix_options_def py_len_def pad_loop_def slice4_def py_iter_def
        split: if_splits)
next
  case (JStr s)
  with assms show ?thesis
    by (auto simp: fix_options_def py_len_def pad_loop_def slice4_def py_iter_def
        split: if_splits)
next
  case (JDict kvs)
  with assms show ?thesis
    by (auto simp: fix_options_def py_len_def pad_loop_def slice4_def py_iter_def
        split: if_splits)
qed (use assms in \<open>auto simp: fix_options_def py_len_def\<close>)

lemma validate_mcq_options_length:
  "validate_mcq m = Inr q \<Longrightarrow> length (options q) = 4"
  by (auto simp: validate_mcq_def split: sum.splits dest: fix_options_iter_length)

lemma validate_mcq_list_options:
  assumes "dict_get m (lit ''options'') (JList []) = JList os"
  shows "validate_mcq m =
           Inr \<lparr>question = py_str (dict_get m (lit ''question'') (JStr (lit ''Question''))),
                options = (if length os < 4 then map py_str os @ map placeholder [length os..<4]
                           else map py_str (take 4 os)),
                answer = upper (py_str (dict_get m (lit ''answer'') (JStr (lit ''A''))))\<rparr>"
proof -
  have "fix_options (JList os) = Inr (JList (take 4 (pad_options os)))"
    by (auto simp: fix_options_def py_len_def pad_loop_def slice4_def pad_options_eq)
  moreover have "map py_str (take 4 (pad_options os)) =
      (if length os < 4 then map py_str os @ map placeholder [length os..<4]
       else map py_str (take 4 os))"
    by (simp add: pad_options_eq py_str_def comp_def)
  ultimately show ?thesis
    using assms by (simp add: validate_mcq_def py_iter_def)
qed

lemma validate_mcq_spec_options:
  assumes "dict_get m (lit ''options'') (JList []) = JList os"
  shows "\<exists>q. validate_mcq m = Inr q \<and> options q = spec_options os"
  using validate_mcq_list_options [OF assms]
  by (auto simp: spec_options_def placeholders_from)

lemma validate_mcq_answer:
  "validate_mcq m = Inr q \<Longrightarrow> answer q = upper (py_str (dict_get m (lit ''answer'') (JStr (lit ''A''))))"
  by (auto simp: validate_mcq_def split: sum.splits)

lemma validate_mcq_spec_answer:
  assumes "validate_mcq m = Inr q"
  shows "answer q = spec_answer m"
  using validate_mcq_answer [OF assms]
  by (simp add: spec_answer_def dict_get_def py_str_def upper_A split: option.splits)

subsection \<open>The loops\<close>

lemma validate_mcqs_rel:
  "validate_mcqs xs = Inr qs \<Longrightarrow> list_all2 (\<lambda>m q. validate_mcq m = Inr q) (dicts_of xs) qs"
  by (induction xs arbitrary: qs rule: validate_mcqs.induct) (auto split: sum.splits)

lemma length_dicts_of: "length (dicts_of xs) \<le> length xs"
  by (induction xs rule: dicts_of.induct) auto

lemma validate_flashcards_length: "length (validate_flashcards xs) \<le> length xs"
  by (induction xs rule: validate_flashcards.induct) auto

lemma validate_study_data_mcqs:
  assumes "validate_study_data d = Inr sd"
  shows "list_all2 (\<lambda>m q. validate_mcq m = Inr q) (mcq_mappings d) (mcqs sd)"
  using assms
  by (auto simp: validate_study_data_def mcq_mappings_def Let_def
      split: json.splits sum.splits dest: validate_mcqs_rel)

subsection \<open>Conformant input\<close>

lemma validate_mcq_conforms:
  assumes "mcq_conforms j q"
  shows "\<exists>kv. j = JDict kv \<and> validate_mcq kv = Inr q"
proof (cases j)
  case (JDict kv)
  with assms have "dict_get kv (lit ''options'') (JList []) = JList (map JStr (options q))"
    by (simp add: dict_get_def)
  from validate_mcq_list_options [OF this] JDict assms
  have "validate_mcq kv = Inr q"
    by (simp add: dict_get_def py_str_def comp_def)
  with JDict show ?thesis by simp
qed (use assms in simp_all)

lemma validate_mcqs_conforms:
  "list_all2 mcq_conforms js qs \<Longrightarrow> validate_mcqs js = Inr qs"
proof (induction rule: list_all2_induct)
  case Nil
  show ?case by simp
next
  case (Cons j js q qs)
  from validate_mcq_conforms [OF Cons.hyps(1)] Cons.IH show ?case by auto
qed

lemma validate_flashcards_conforms:
  "list_all2 card_conforms js cs \<Longrightarrow> validate_flashcards js = cs"
proof (induction rule: list_all2_induct)
  case Nil
  show ?case by simp
next
  case (Cons j js c cs)
  from Cons.hyps(1) obtain kv where "j = JDict kv" by (cases j) simp_all
  with Cons show ?case by (simp add: dict_get_def py_str_def)
qed

lemma validate_notes_conforms:
  assumes "map_of kvs (lit ''notes'') = Some (JList (map JStr ns))" and "list_all (\<lambda>n. n \<noteq> []) ns"
  shows "validate_notes kvs = ns"
proof -
  from assms(2) have "map py_str (filter truthy (map JStr ns)) = ns"
    by (induction ns) (simp_all add: py_str_def)
  with assms(1) show ?thesis by (simp add: validate_notes_def dict_get_def)
qed

subsection \<open>The examples of the specification\<close>

lemma example_one_option:
  "validate_study_data (JDict [(lit ''mcqs'', JList [JDict [(lit ''options'', JList [JStr (lit ''A) x'')])]])]) =
     Inr \<lparr>notes = [],
          mcqs = [\<lparr>question = lit ''Question'',
                   options = [lit ''A) x'', lit ''B) Option 2'', lit ''C) Option 3'', lit ''D) Option 4''],
                   answer = lit ''A''\<rparr>],
          flashcards = []\<rparr>"
  by code_simp

lemma example_five_options:
  "validate_study_data (JDict [(lit ''mcqs'', JList [JDict [(lit ''options'',
        JList [JStr (lit ''a''), JStr (lit ''b''), JStr (lit ''c''), JStr (lit ''d''), JStr (lit ''e'')])]])]) =
     Inr \<lparr>notes = [],
          mcqs = [\<lparr>question = lit ''Question'', options = [lit ''a'', lit ''b'', lit ''c'', lit ''d''], answer = lit ''A''\<rparr>],
          flashcards = []\<rparr>"
  by code_simp

lemma example_answer_b:
  "validate_study_data (JDict [(lit ''mcqs'', JList [JDict [(lit ''answer'', JStr (lit ''b''))]])]) =
     Inr \<lparr>notes = [],
          mcqs = [\<lparr>question = lit ''Question'',
                   options = [lit ''A) Option 1'', lit ''B) Option 2'', lit ''C) Option 3'', lit ''D) Option 4''],
                   answer = lit ''B''\<rparr>],
          flashcards = []\<rparr>"
  by code_simp

section \<open>The handler\<close>

text \<open>
  C3, C4. \<open>generate_study_material\<close> is not embedded. In the source the statements of
  lines 206 to 223 (the completion call and the call of \<open>clean_json_response\<close>) stand at
  column 0 while the \<open>try\<close> block opened at line 193 is still open, with no \<open>except\<close>
  before them: the parser rejects the module, so the handler is never defined and
  answers no request.
\<close>

section \<open>validate\_study\_data\<close>

text \<open>
  C1. The claim is that \<open>validate_study_data\<close> raises on no input. On a dict whose one
  mcq has the number 5 as its \<open>options\<close>, the call \<open>len(options)\<close> raises a TypeError:
  the function checks that \<open>notes\<close>, \<open>mcqs\<close> and \<open>flashcards\<close> are lists and that each
  mcq is a dict, and does not check \<open>options\<close>.
\<close>

theorem validate_options_not_sized:
  "validate_study_data (JDict [(lit ''mcqs'', JList [JDict [(lit ''options'', JInt 5)]])]) =
     Inl (TypeError (''object of type '' @ [CHR 0x27] @ ''int'' @ [CHR 0x27] @ '' has no len()''))"
  by code_simp

text \<open>
  C2. Whenever \<open>validate_study_data\<close> returns a StudyData, it has at most five mcqs,
  every mcq has exactly four options, and there are at most three flashcards.
\<close>

theorem validate_study_data_shape:
  assumes "validate_study_data d = Inr sd"
  shows "length (mcqs sd) \<le> 5 \<and> (\<forall>q \<in> set (mcqs sd). length (options q) = 4)
         \<and> length (flashcards sd) \<le> 3"
proof -
  have rel: "list_all2 (\<lambda>m q. validate_mcq m = Inr q) (mcq_mappings d) (mcqs sd)"
    using assms by (rule validate_study_data_mcqs)
  obtain kvs where d: "d = JDict kvs"
    using assms by (cases d) (auto simp: validate_study_data_def)
  have "length (mcqs sd) = length (mcq_mappings d)"
    using rel by (simp add: list_all2_lengthD)
  also have "\<dots> \<le> length (take 5 (list_or_empty (dict_get kvs (lit ''mcqs'') (JList []))))"
    unfolding d mcq_mappings_def by (simp only: json.case length_dicts_of)
  also have "\<dots> \<le> 5" by simp
  finally have a: "length (mcqs sd) \<le> 5" .
  have b: "\<forall>q \<in> set (mcqs sd). length (options q) = 4"
  proof
    fix q assume "q \<in> set (mcqs sd)"
    then obtain m where "validate_mcq m = Inr q"
      using rel by (auto simp: list_all2_conv_all_nth in_set_conv_nth)
    then show "length (options q) = 4" by (rule validate_mcq_options_length)
  qed
  have "flashcards sd = validate_flashcards (take 3 (list_or_empty (dict_get kvs (lit ''flashcards'') (JList []))))"
    using assms unfolding d by (auto simp: validate_study_data_def Let_def split: sum.splits)
  then have "length (flashcards sd) \<le> length (take 3 (list_or_empty (dict_get kvs (lit ''flashcards'') (JList []))))"
    by (simp only: validate_flashcards_length)
  then have c: "length (flashcards sd) \<le> 3" by simp
  from a b c show ?thesis by blast
qed

theorem validate_study_data_shape_witness:
  "validate_study_data
     (JDict [(lit ''mcqs'', JList [JDict [], JNull, JDict [(lit ''options'', JStr (lit ''wxyz''))], JDict [],
                               JDict [(lit ''options'', JList (replicate 6 (JInt 7)))], JDict []]),
             (lit ''flashcards'', JList [JDict [], JDict [], JDict [], JDict []])]) =
     Inr \<lparr>notes = [],
          mcqs = [\<lparr>question = lit ''Question'',
                   options = [lit ''A) Option 1'', lit ''B) Option 2'', lit ''C) Option 3'', lit ''D) Option 4''],
                   answer = lit ''A''\<rparr>,
                  \<lparr>question = lit ''Question'', options = [lit ''w'', lit ''x'', lit ''y'', lit ''z''], answer = lit ''A''\<rparr>,
                  \<lparr>question = lit ''Question'',
                   options = [lit ''A) Option 1'', lit ''B) Option 2'', lit ''C) Option 3'', lit ''D) Option 4''],
                   answer = lit ''A''\<rparr>,
                  \<lparr>question = lit ''Question'', options = [lit ''7'', lit ''7'', lit ''7'', lit ''7''], answer = lit ''A''\<rparr>],
          flashcards = replicate 3 \<lparr>front = lit ''Question'', back = lit ''Answer''\<rparr>\<rparr>
   \<and> length (mcqs \<lparr>notes = [],
          mcqs = [\<lparr>question = lit ''Question'',
                   options = [lit ''A) Option 1'', lit ''B) Option 2'', lit ''C) Option 3'', lit ''D) Option 4''],
                   answer = lit ''A''\<rparr>,
                  \<lparr>question = lit ''Question'', options = [lit ''w'', lit ''x'', lit ''y'', lit ''z''], answer = lit ''A''\<rparr>,
                  \<lparr>question = lit ''Question'',
                   options = [lit ''A) Option 1'', lit ''B) Option 2'', lit ''C) Option 3'', lit ''D) Option 4''],
                   answer = lit ''A''\<rparr>,
                  \<lparr>question = lit ''Question'', options = [lit ''7'', lit ''7'', lit ''7'', lit ''7''], answer = lit ''A''\<rparr>],
          flashcards = replicate 3 \<lparr>front = lit ''Question'', back = lit ''Answer''\<rparr>\<rparr>) \<le> 5
   \<and> list_all (\<lambda>q. length (options q) = 4) (mcqs \<lparr>notes = [],
          mcqs = [\<lparr>question = lit ''Question'',
                   options = [lit ''A) Option 1'', lit ''B) Option 2'', lit ''C) Option 3'', lit ''D) Option 4''],
                   answer = lit ''A''\<rparr>,
                  \<lparr>question = lit ''Question'', options = [lit ''w'', lit ''x'', lit ''y'', lit ''z''], answer = lit ''A''\<rparr>,
                  \<lparr>question = lit ''Question'',
                   options = [lit ''A) Option 1'', lit ''B) Option 2'', lit ''C) Option 3'', lit ''D) Option 4''],
                   answer = lit ''A''\<rparr>,
                  \<lparr>question = lit ''Question'', options = [lit ''7'', lit ''7'', lit ''7'', lit ''7''], answer = lit ''A''\<rparr>],
          flashcards = replicate 3 \<lparr>front = lit ''Question'', back = lit ''Answer''\<rparr>\<rparr>)
   \<and> length (flashcards \<lparr>notes = [],
          mcqs = [\<lparr>question = lit ''Question'',
                   options = [lit ''A) Option 1'', lit ''B) Option 2'', lit ''C) Option 3'', lit ''D) Option 4''],
                   answer = lit ''A''\<rparr>,
                  \<lparr>question = lit ''Question'', options = [lit ''w'', lit ''x'', lit ''y'', lit ''z''], answer = lit ''A''\<rparr>,
                  \<lparr>question = lit ''Question'',
                   options = [lit ''A) Option 1'', lit ''B) Option 2'', lit ''C) Option 3'', lit ''D) Option 4''],
                   answer = lit ''A''\<rparr>,
                  \<lparr>question = lit ''Question'', options = [lit ''7'', lit ''7'', lit ''7'', lit ''7''], answer = lit ''A''\<rparr>],
          flashcards = replicate 3 \<lparr>front = lit ''Question'', back = lit ''Answer''\<rparr>\<rparr>) \<le> 3"
proof -
  have h: "validate_study_data
     (JDict [(lit ''mcqs'', JList [JDict [], JNull, JDict [(lit ''options'', JStr (lit ''wxyz''))], JDict [],
                               JDict [(lit ''options'', JList (replicate 6 (JInt 7)))], JDict []]),
             (lit ''flashcards'', JList [JDict [], JDict [], JDict [], JDict []])]) =
     Inr \<lparr>notes = [],
          mcqs = [\<lparr>question = lit ''Question'',
                   options = [lit ''A) Option 1'', lit ''B) Option 2'', lit ''C) Option 3'', lit ''D) Option 4''],
                   answer = lit ''A''\<rparr>,
                  \<lparr>question = lit ''Question'', options = [lit ''w'', lit ''x'', lit ''y'', lit ''z''], answer = lit ''A''\<rparr>,
                  \<lparr>question = lit ''Question'',
                   options = [lit ''A) Option 1'', lit ''B) Option 2'', lit ''C) Option 3'', lit ''D) Option 4''],
                   answer = lit ''A''\<rparr>,
                  \<lparr>question = lit ''Question'', options = [lit ''7'', lit ''7'', lit ''7'', lit ''7''], answer = lit ''A''\<rparr>],
          flashcards = replicate 3 \<lparr>front = lit ''Question'', back = lit ''Answer''\<rparr>\<rparr>"
    by code_simp
  from validate_study_data_shape [OF h] h show ?thesis
    unfolding list_all_iff by blast
qed

text \<open>
  C5. A list of fewer than four options is followed by the placeholders of the missing
  positions ("B) Option 2" at position 2, and so on) up to four; a list of more than
  four is cut to its first four; each element is turned into text. No list is both
  padded and cut. For an mcq mapping whose options are a list the loop body always
  returns, and in every StudyData returned the mcqs are those of the mappings visited,
  in order. The two examples of the specification evaluate as stated.
\<close>

theorem options_padded_or_truncated:
  "(dict_get m (lit ''options'') (JList []) = JList os \<longrightarrow>
      (\<exists>q. validate_mcq m = Inr q \<and> options q = spec_options os))
   \<and> (validate_study_data d = Inr sd \<longrightarrow>
        list_all2 (\<lambda>m q. \<forall>os. dict_get m (lit ''options'') (JList []) = JList os \<longrightarrow> options q = spec_options os)
          (mcq_mappings d) (mcqs sd))
   \<and> validate_study_data (JDict [(lit ''mcqs'', JList [JDict [(lit ''options'', JList [JStr (lit ''A) x'')])]])]) =
        Inr \<lparr>notes = [],
             mcqs = [\<lparr>question = lit ''Question'',
                      options = [lit ''A) x'', lit ''B) Option 2'', lit ''C) Option 3'', lit ''D) Option 4''],
                      answer = lit ''A''\<rparr>],
             flashcards = []\<rparr>
   \<and> validate_study_data (JDict [(lit ''mcqs'', JList [JDict [(lit ''options'',
          JList [JStr (lit ''a''), JStr (lit ''b''), JStr (lit ''c''), JStr (lit ''d''), JStr (lit ''e'')])]])]) =
        Inr \<lparr>notes = [],
             mcqs = [\<lparr>question = lit ''Question'', options = [lit ''a'', lit ''b'', lit ''c'', lit ''d''], answer = lit ''A''\<rparr>],
             flashcards = []\<rparr>"
proof -
  have a: "dict_get m (lit ''options'') (JList []) = JList os \<longrightarrow>
      (\<exists>q. validate_mcq m = Inr q \<and> options q = spec_options os)"
    using validate_mcq_spec_options by blast
  have b: "validate_study_data d = Inr sd \<longrightarrow>
        list_all2 (\<lambda>m q. \<forall>os. dict_get m (lit ''options'') (JList []) = JList os \<longrightarrow> options q = spec_options os)
          (mcq_mappings d) (mcqs sd)"
  proof
    assume "validate_study_data d = Inr sd"
    then have "list_all2 (\<lambda>m q. validate_mcq m = Inr q) (mcq_mappings d) (mcqs sd)"
      by (rule validate_study_data_mcqs)
    then show "list_all2 (\<lambda>m q. \<forall>os. dict_get m (lit ''options'') (JList []) = JList os \<longrightarrow> options q = spec_options os)
          (mcq_mappings d) (mcqs sd)"
    proof (rule list_all2_mono)
      fix m q assume "validate_mcq m = Inr q"
      then show "\<forall>os. dict_get m (lit ''options'') (JList []) = JList os \<longrightarrow> options q = spec_options os"
        using validate_mcq_spec_options [of m] by fastforce
    qed
  qed
  from a b example_one_option example_five_options show ?thesis by blast
qed

theorem options_padded_or_truncated_witness:
  "dict_get [(lit ''options'', JList [JStr (lit ''A) x'')])] (lit ''options'') (JList []) = JList [JStr (lit ''A) x'')]
   \<and> validate_study_data (JDict [(lit ''mcqs'', JList [JDict [(lit ''options'', JList [JStr (lit ''A) x'')])]])]) =
        Inr \<lparr>notes = [],
          mcqs = [\<lparr>question = lit ''Question'',
                   options = [lit ''A) x'', lit ''B) Option 2'', lit ''C) Option 3'', lit ''D) Option 4''],
                   answer = lit ''A''\<rparr>],
          flashcards = []\<rparr>
   \<and> (\<exists>q. validate_mcq [(lit ''options'', JList [JStr (lit ''A) x'')])] = Inr q
            \<and> options q = spec_options [JStr (lit ''A) x'')])
   \<and> mcq_mappings (JDict [(lit ''mcqs'', JList [JDict [(lit ''options'', JList [JStr (lit ''A) x'')])]])]) =
        [[(lit ''options'', JList [JStr (lit ''A) x'')])]]
   \<and> options \<lparr>question = lit ''Question'',
                options = [lit ''A) x'', lit ''B) Option 2'', lit ''C) Option 3'', lit ''D) Option 4''],
                answer = lit ''A''\<rparr> = spec_options [JStr (lit ''A) x'')]"
proof -
  have h3: "mcq_mappings (JDict [(lit ''mcqs'', JList [JDict [(lit ''options'', JList [JStr (lit ''A) x'')])]])]) =
        [[(lit ''options'', JList [JStr (lit ''A) x'')])]]"
    by code_simp
  have h1: "dict_get [(lit ''options'', JList [JStr (lit ''A) x'')])] (lit ''options'') (JList []) = JList [JStr (lit ''A) x'')]"
    by (simp add: dict_get_def)
  have h2: "validate_study_data (JDict [(lit ''mcqs'', JList [JDict [(lit ''options'', JList [JStr (lit ''A) x'')])]])]) =
        Inr \<lparr>notes = [],
          mcqs = [\<lparr>question = lit ''Question'',
                   options = [lit ''A) x'', lit ''B) Option 2'', lit ''C) Option 3'', lit ''D) Option 4''],
                   answer = lit ''A''\<rparr>],
          flashcards = []\<rparr>"
    by (rule example_one_option)
  note t = options_padded_or_truncated [of "[(lit ''options'', JList [JStr (lit ''A) x'')])]" "[JStr (lit ''A) x'')]"
      "JDict [(lit ''mcqs'', JList [JDict [(lit ''options'', JList [JStr (lit ''A) x'')])]])]"
      "\<lparr>notes = [],
          mcqs = [\<lparr>question = lit ''Question'',
                   options = [lit ''A) x'', lit ''B) Option 2'', lit ''C) Option 3'', lit ''D) Option 4''],
                   answer = lit ''A''\<rparr>],
          flashcards = []\<rparr>"]
  from t h1 have a: "\<exists>q. validate_mcq [(lit ''options'', JList [JStr (lit ''A) x'')])] = Inr q
      \<and> options q = spec_options [JStr (lit ''A) x'')]"
    by blast
  from t h2 have "list_all2 (\<lambda>m q. \<forall>os. dict_get m (lit ''options'') (JList []) = JList os \<longrightarrow> options q = spec_options os)
      (mcq_mappings (JDict [(lit ''mcqs'', JList [JDict [(lit ''options'', JList [JStr (lit ''A) x'')])]])]))
      (mcqs \<lparr>notes = [],
          mcqs = [\<lparr>question = lit ''Question'',
                   options = [lit ''A) x'', lit ''B) Option 2'', lit ''C) Option 3'', lit ''D) Option 4''],
                   answer = lit ''A''\<rparr>],
          flashcards = []\<rparr>)"
    by blast
  then have "\<forall>os. dict_get [(lit ''options'', JList [JStr (lit ''A) x'')])] (lit ''options'') (JList []) = JList os \<longrightarrow>
      options \<lparr>question = lit ''Question'',
                options = [lit ''A) x'', lit ''B) Option 2'', lit ''C) Option 3'', lit ''D) Option 4''],
                answer = lit ''A''\<rparr> = spec_options os"
    unfolding h3 by simp
  with h1 have c: "options \<lparr>question = lit ''Question'',
                options = [lit ''A) x'', lit ''B) Option 2'', lit ''C) Option 3'', lit ''D) Option 4''],
                answer = lit ''A''\<rparr> = spec_options [JStr (lit ''A) x'')]"
    by blast
  from h1 h2 a h3 c show ?thesis by (intro conjI)
qed

lemma answers_of_texts_and_scalars:
  "answers_of (validate_study_data
     (JDict [(lit ''mcqs'', JList
            [JDict [(lit ''answer'', JStr (lit ''hello, World 1!''))],
             JDict [(lit ''answer'', JStr [115, 116, 114, 97, 223, 101, 32, 233, 32, 255])],
             JDict [(lit ''answer'', JNull)],
             JDict [(lit ''answer'', JBool True)],
             JDict [(lit ''answer'', JInt (- 12))]])])) =
   [lit ''HELLO, WORLD 1!'', lit ''STRASSE'' @ [32, 201, 32, 376], lit ''NONE'', lit ''TRUE'', lit ''-12'']"
  by code_simp

lemma answers_of_default_and_containers:
  "answers_of (validate_study_data
     (JDict [(lit ''mcqs'', JList
            [JDict [],
             JDict [(lit ''answer'', JFloat True (lit ''1.5e-07''))],
             JDict [(lit ''answer'', JList [JStr (lit ''b''), JNull])],
             JDict [(lit ''answer'', JDict [(lit ''k'', JBool False)])]])])) =
   [lit ''A'', lit ''1.5E-07'', lit ''['B', NONE]'', lit ''{'K': FALSE}'']"
  by code_simp

text \<open>
  C6. In every StudyData returned, the answer of each mcq is "A" when the mapping has
  no \<open>answer\<close> field and the uppercased \<open>str\<close> of the field otherwise. The input with the
  one mcq \<open>{"answer": "b"}\<close> gives the answer "B" and the four placeholders as options.
  What \<open>str\<close> and \<open>upper\<close> give is shown on inputs of every kind: a text with
  letters, digits and signs, a text with letters beyond ASCII (U+00DF becomes "SS"),
  \<open>null\<close>, \<open>true\<close>, a number, a list and a mapping.
\<close>

theorem answer_upper_or_default:
  "(validate_study_data d = Inr sd \<longrightarrow>
      list_all2 (\<lambda>m q. answer q = spec_answer m) (mcq_mappings d) (mcqs sd))
   \<and> validate_study_data (JDict [(lit ''mcqs'', JList [JDict [(lit ''answer'', JStr (lit ''b''))]])]) =
        Inr \<lparr>notes = [],
          mcqs = [\<lparr>question = lit ''Question'',
                   options = [lit ''A) Option 1'', lit ''B) Option 2'', lit ''C) Option 3'', lit ''D) Option 4''],
                   answer = lit ''B''\<rparr>],
          flashcards = []\<rparr>
   \<and> answers_of (validate_study_data
        (JDict [(lit ''mcqs'', JList
            [JDict [(lit ''answer'', JStr (lit ''hello, World 1!''))],
             JDict [(lit ''answer'', JStr [115, 116, 114, 97, 223, 101, 32, 233, 32, 255])],
             JDict [(lit ''answer'', JNull)],
             JDict [(lit ''answer'', JBool True)],
             JDict [(lit ''answer'', JInt (- 12))]])])) =
      [lit ''HELLO, WORLD 1!'', lit ''STRASSE'' @ [32, 201, 32, 376], lit ''NONE'', lit ''TRUE'', lit ''-12'']
   \<and> answers_of (validate_study_data
        (JDict [(lit ''mcqs'', JList
            [JDict [],
             JDict [(lit ''answer'', JFloat True (lit ''1.5e-07''))],
             JDict [(lit ''answer'', JList [JStr (lit ''b''), JNull])],
             JDict [(lit ''answer'', JDict [(lit ''k'', JBool False)])]])])) =
      [lit ''A'', lit ''1.5E-07'', lit ''['B', NONE]'', lit ''{'K': FALSE}'']"
proof -
  have "validate_study_data d = Inr sd \<longrightarrow>
      list_all2 (\<lambda>m q. answer q = spec_answer m) (mcq_mappings d) (mcqs sd)"
  proof
    assume "validate_study_data d = Inr sd"
    then have "list_all2 (\<lambda>m q. validate_mcq m = Inr q) (mcq_mappings d) (mcqs sd)"
      by (rule validate_study_data_mcqs)
    then show "list_all2 (\<lambda>m q. answer q = spec_answer m) (mcq_mappings d) (mcqs sd)"
      by (rule list_all2_mono) (rule validate_mcq_spec_answer)
  qed
  with example_answer_b answers_of_texts_and_scalars answers_of_default_and_containers
  show ?thesis by blast
qed

theorem answer_upper_or_default_witness:
  "validate_study_data (JDict [(lit ''mcqs'', JList [JDict [(lit ''answer'', JStr (lit ''b''))]])]) =
        Inr \<lparr>notes = [],
          mcqs = [\<lparr>question = lit ''Question'',
                   options = [lit ''A) Option 1'', lit ''B) Option 2'', lit ''C) Option 3'', lit ''D) Option 4''],
                   answer = lit ''B''\<rparr>],
          flashcards = []\<rparr>
   \<and> list_all2 (\<lambda>m q. answer q = spec_answer m)
        (mcq_mappings (JDict [(lit ''mcqs'', JList [JDict [(lit ''answer'', JStr (lit ''b''))]])]))
        (mcqs \<lparr>notes = [],
          mcqs = [\<lparr>question = lit ''Question'',
                   options = [lit ''A) Option 1'', lit ''B) Option 2'', lit ''C) Option 3'', lit ''D) Option 4''],
                   answer = lit ''B''\<rparr>],
          flashcards = []\<rparr>)"
proof -
  have h: "validate_study_data (JDict [(lit ''mcqs'', JList [JDict [(lit ''answer'', JStr (lit ''b''))]])]) =
        Inr \<lparr>notes = [],
          mcqs = [\<lparr>question = lit ''Question'',
                   options = [lit ''A) Option 1'', lit ''B) Option 2'', lit ''C) Option 3'', lit ''D) Option 4''],
                   answer = lit ''B''\<rparr>],
          flashcards = []\<rparr>"
    by (rule example_answer_b)
  from h answer_upper_or_default [of "JDict [(lit ''mcqs'', JList [JDict [(lit ''answer'', JStr (lit ''b''))]])]"
      "\<lparr>notes = [],
          mcqs = [\<lparr>question = lit ''Question'',
                   options = [lit ''A) Option 1'', lit ''B) Option 2'', lit ''C) Option 3'', lit ''D) Option 4''],
                   answer = lit ''B''\<rparr>],
          flashcards = []\<rparr>"]
  show ?thesis by blast
qed

text \<open>
  C7. The claim is that every answer returned is a single uppercase letter. The function
  uppercases the text of the field and checks neither its length nor its characters:
  the answer "hello" comes back as "HELLO".
\<close>

theorem answer_single_letter_counterexample:
  "validate_study_data (JDict [(lit ''mcqs'', JList [JDict [(lit ''answer'', JStr (lit ''hello''))]])]) =
     Inr \<lparr>notes = [],
          mcqs = [\<lparr>question = lit ''Question'',
                   options = [lit ''A) Option 1'', lit ''B) Option 2'', lit ''C) Option 3'', lit ''D) Option 4''],
                   answer = lit ''HELLO''\<rparr>],
          flashcards = []\<rparr>
   \<and> \<not> single_upper_letter (lit ''HELLO'')"
  by code_simp

text \<open>
  C7, as amended. Every answer returned is an uppercased text: it holds no lowercase
  letter a to z. It need not be one character long, nor a letter, nor within A to D.
\<close>

theorem answer_has_no_lower_letter:
  assumes "validate_study_data d = Inr sd" and "q \<in> set (mcqs sd)"
  shows "\<forall>c \<in> set (answer q). \<not> is_lower_letter c"
proof -
  have "list_all2 (\<lambda>m q. validate_mcq m = Inr q) (mcq_mappings d) (mcqs sd)"
    using assms(1) by (rule validate_study_data_mcqs)
  with assms(2) obtain m where "validate_mcq m = Inr q"
    by (auto simp: list_all2_conv_all_nth in_set_conv_nth)
  then have "answer q = upper (py_str (dict_get m (lit ''answer'') (JStr (lit ''A''))))"
    by (rule validate_mcq_answer)
  then show ?thesis by (simp add: upper_no_lower)
qed

theorem answer_has_no_lower_letter_witness:
  "validate_study_data (JDict [(lit ''mcqs'', JList [JDict [(lit ''answer'', JStr (lit ''hello''))]])]) =
     Inr \<lparr>notes = [],
          mcqs = [\<lparr>question = lit ''Question'',
                   options = [lit ''A) Option 1'', lit ''B) Option 2'', lit ''C) Option 3'', lit ''D) Option 4''],
                   answer = lit ''HELLO''\<rparr>],
          flashcards = []\<rparr>
   \<and> \<lparr>question = lit ''Question'',
                   options = [lit ''A) Option 1'', lit ''B) Option 2'', lit ''C) Option 3'', lit ''D) Option 4''],
                   answer = lit ''HELLO''\<rparr> \<in> set (mcqs \<lparr>notes = [],
          mcqs = [\<lparr>question = lit ''Question'',
                   options = [lit ''A) Option 1'', lit ''B) Option 2'', lit ''C) Option 3'', lit ''D) Option 4''],
                   answer = lit ''HELLO''\<rparr>],
          flashcards = []\<rparr>)
   \<and> list_all (\<lambda>c. \<not> is_lower_letter c) (answer \<lparr>question = lit ''Question'',
                   options = [lit ''A) Option 1'', lit ''B) Option 2'', lit ''C) Option 3'', lit ''D) Option 4''],
                   answer = lit ''HELLO''\<rparr>)"
proof -
  have h: "validate_study_data (JDict [(lit ''mcqs'', JList [JDict [(lit ''answer'', JStr (lit ''hello''))]])]) =
     Inr \<lparr>notes = [],
          mcqs = [\<lparr>question = lit ''Question'',
                   options = [lit ''A) Option 1'', lit ''B) Option 2'', lit ''C) Option 3'', lit ''D) Option 4''],
                   answer = lit ''HELLO''\<rparr>],
          flashcards = []\<rparr>"
    by code_simp
  have m: "\<lparr>question = lit ''Question'',
                   options = [lit ''A) Option 1'', lit ''B) Option 2'', lit ''C) Option 3'', lit ''D) Option 4''],
                   answer = lit ''HELLO''\<rparr> \<in> set (mcqs \<lparr>notes = [],
          mcqs = [\<lparr>question = lit ''Question'',
                   options = [lit ''A) Option 1'', lit ''B) Option 2'', lit ''C) Option 3'', lit ''D) Option 4''],
                   answer = lit ''HELLO''\<rparr>],
          flashcards = []\<rparr>)"
    by simp
  from h m answer_has_no_lower_letter [OF h m] show ?thesis
    unfolding list_all_iff by blast
qed

text \<open>
  C9. An input that already has the shape of the output (the three fields present as
  lists; notes non-empty texts; at most five mcq mappings, each with a text question,
  exactly four text options and a text answer that uppercasing leaves unchanged; at
  most three flashcard mappings with text front and back) is returned as the
  StudyData of exactly those values.
\<close>

theorem validate_conformant_unchanged:
  assumes "conformant d sd"
  shows "validate_study_data d = Inr sd"
proof -
  from assms obtain kvs where d: "d = JDict kvs"
    by (cases d) (simp_all add: conformant_def)
  from assms d obtain js where js: "map_of kvs (lit ''mcqs'') = Some (JList js)"
      "list_all2 mcq_conforms js (mcqs sd)"
    by (auto simp: conformant_def split: option.splits json.splits)
  from assms d obtain cs where cs: "map_of kvs (lit ''flashcards'') = Some (JList cs)"
      "list_all2 card_conforms cs (flashcards sd)"
    by (auto simp: conformant_def split: option.splits json.splits)
  from assms d have n: "validate_notes kvs = notes sd"
    by (auto simp: conformant_def intro: validate_notes_conforms)
  from assms d have len: "length (mcqs sd) \<le> 5" "length (flashcards sd) \<le> 3"
    by (simp_all add: conformant_def)
  have "length js = length (mcqs sd)" using js(2) by (rule list_all2_lengthD)
  with len have "take 5 js = js" by simp
  with js have m: "validate_mcqs (take 5 (list_or_empty (dict_get kvs (lit ''mcqs'') (JList [])))) = Inr (mcqs sd)"
    by (simp add: dict_get_def list_or_empty_def validate_mcqs_conforms)
  have "length cs = length (flashcards sd)" using cs(2) by (rule list_all2_lengthD)
  with len have "take 3 cs = cs" by simp
  with cs have f: "validate_flashcards (take 3 (list_or_empty (dict_get kvs (lit ''flashcards'') (JList [])))) = flashcards sd"
    by (simp add: dict_get_def list_or_empty_def validate_flashcards_conforms)
  show ?thesis
    unfolding d by (simp add: validate_study_data_def n m f)
qed

theorem validate_conformant_unchanged_witness:
  "conformant
     (JDict [(lit ''notes'', JList [JStr (lit ''Plants turn light into sugar'')]),
             (lit ''mcqs'', JList [JDict [(lit ''question'', JStr (lit ''Where?'')),
                                      (lit ''options'', JList [JStr (lit ''A) Leaf''), JStr (lit ''B) Root''), JStr (lit ''C) Stem''), JStr (lit ''D) Seed'')]),
                                      (lit ''answer'', JStr (lit ''A''))]]),
             (lit ''flashcards'', JList [JDict [(lit ''front'', JStr (lit ''Chlorophyll'')), (lit ''back'', JStr (lit ''The green pigment''))]])])
     \<lparr>notes = [lit ''Plants turn light into sugar''],
        mcqs = [\<lparr>question = lit ''Where?'',
                 options = [lit ''A) Leaf'', lit ''B) Root'', lit ''C) Stem'', lit ''D) Seed''],
                 answer = lit ''A''\<rparr>],
        flashcards = [\<lparr>front = lit ''Chlorophyll'', back = lit ''The green pigment''\<rparr>]\<rparr>
   \<and> validate_study_data
     (JDict [(lit ''notes'', JList [JStr (lit ''Plants turn light into sugar'')]),
             (lit ''mcqs'', JList [JDict [(lit ''question'', JStr (lit ''Where?'')),
                                      (lit ''options'', JList [JStr (lit ''A) Leaf''), JStr (lit ''B) Root''), JStr (lit ''C) Stem''), JStr (lit ''D) Seed'')]),
                                      (lit ''answer'', JStr (lit ''A''))]]),
             (lit ''flashcards'', JList [JDict [(lit ''front'', JStr (lit ''Chlorophyll'')), (lit ''back'', JStr (lit ''The green pigment''))]])]) =
     Inr \<lparr>notes = [lit ''Plants turn light into sugar''],
        mcqs = [\<lparr>question = lit ''Where?'',
                 options = [lit ''A) Leaf'', lit ''B) Root'', lit ''C) Stem'', lit ''D) Seed''],
                 answer = lit ''A''\<rparr>],
        flashcards = [\<lparr>front = lit ''Chlorophyll'', back = lit ''The green pigment''\<rparr>]\<rparr>"
proof -
  have h: "conformant
     (JDict [(lit ''notes'', JList [JStr (lit ''Plants turn light into sugar'')]),
             (lit ''mcqs'', JList [JDict [(lit ''question'', JStr (lit ''Where?'')),
                                      (lit ''options'', JList [JStr (lit ''A) Leaf''), JStr (lit ''B) Root''), JStr (lit ''C) Stem''), JStr (lit ''D) Seed'')]),
                                      (lit ''answer'', JStr (lit ''A''))]]),
             (lit ''flashcards'', JList [JDict [(lit ''front'', JStr (lit ''Chlorophyll'')), (lit ''back'', JStr (lit ''The green pigment''))]])])
     \<lparr>notes = [lit ''Plants turn light into sugar''],
        mcqs = [\<lparr>question = lit ''Where?'',
                 options = [lit ''A) Leaf'', lit ''B) Root'', lit ''C) Stem'', lit ''D) Seed''],
                 answer = lit ''A''\<rparr>],
        flashcards = [\<lparr>front = lit ''Chlorophyll'', back = lit ''The green pigment''\<rparr>]\<rparr>"
    by code_simp
  from h validate_conformant_unchanged [OF h] show ?thesis by blast
qed

section \<open>clean\_json\_response\<close>

subsection \<open>Occurrences of the fence\<close>

lemma contains_iff: "contains p s \<longleftrightarrow> (\<exists>u v. s = u @ p @ v)"
proof (induction s)
  case Nil
  show ?case by auto
next
  case (Cons c cs)
  show ?case
  proof
    assume "contains p (c # cs)"
    then consider "prefix p (c # cs)" | "contains p cs" by auto
    then show "\<exists>u v. c # cs = u @ p @ v"
    proof cases
      case 1
      then obtain v where "c # cs = p @ v" by (auto simp: prefix_def)
      then have "c # cs = [] @ p @ v" by simp
      then show ?thesis by blast
    next
      case 2
      with Cons.IH obtain u v where "cs = u @ p @ v" by blast
      then have "c # cs = (c # u) @ p @ v" by simp
      then show ?thesis by blast
    qed
  next
    assume "\<exists>u v. c # cs = u @ p @ v"
    then obtain u v where uv: "c # cs = u @ p @ v" by blast
    show "contains p (c # cs)"
    proof (cases u)
      case Nil
      with uv have "prefix p (c # cs)" by (simp add: prefix_def)
      then show ?thesis by simp
    next
      case (Cons a u')
      with uv have "cs = u' @ p @ v" by simp
      with Cons.IH have "contains p cs" by blast
      then show ?thesis by simp
    qed
  qed
qed

lemma fence_eq: "fence = [96, 96, 96]"
  by (simp add: fence_def lit_def)

lemma fence_json_eq: "fence_json = [96, 96, 96, 106, 115, 111, 110]"
  by (simp add: fence_json_def lit_def)

lemma not_space_backtick: "\<not> is_space 96"
  by (simp add: is_space_def)

lemma sub_fence_head1:
  assumes "re_sub_marker fence t = 96 # r"
  shows "\<exists>t'. t = 96 # t'"
proof (cases t)
  case Nil
  with assms show ?thesis by simp
next
  case (Cons c cs)
  show ?thesis
  proof (cases "prefix fence (c # cs)")
    case True
    then have "c = 96" by (simp add: fence_eq)
    with Cons show ?thesis by simp
  next
    case False
    with assms Cons have "c = 96" by simp
    with Cons show ?thesis by simp
  qed
qed

lemma sub_fence_head2:
  assumes "re_sub_marker fence t = 96 # 96 # r"
  shows "\<exists>t'. t = 96 # 96 # t'"
proof (cases t)
  case Nil
  with assms show ?thesis by simp
next
  case (Cons c cs)
  show ?thesis
  proof (cases "prefix fence (c # cs)")
    case True
    then obtain v where "c # cs = fence @ v" by (auto simp: prefix_def)
    with Cons show ?thesis by (simp add: fence_eq)
  next
    case False
    with assms Cons have c: "c = 96" and "re_sub_marker fence cs = 96 # r" by simp_all
    from sub_fence_head1 [OF this(2)] obtain t' where "cs = 96 # t'" by blast
    with Cons c show ?thesis by simp
  qed
qed

lemma sub_fence_no_fence: "\<not> contains fence (re_sub_marker fence t)"
proof (induction "length t" arbitrary: t rule: less_induct)
  case less
  show ?case
  proof (cases t)
    case Nil
    then show ?thesis by (simp add: fence_eq)
  next
    case (Cons c cs)
    show ?thesis
    proof (cases "prefix fence (c # cs)")
      case True
      have "length (dropWhile is_space (drop (length fence) (c # cs))) \<le> length (drop (length fence) (c # cs))"
        by (rule length_dropWhile_le)
      also have "\<dots> < length (c # cs)" by (simp add: fence_eq)
      finally have "\<not> contains fence (re_sub_marker fence (dropWhile is_space (drop (length fence) (c # cs))))"
        using less Cons by simp
      moreover have "fence \<noteq> []" by (simp add: fence_eq)
      ultimately show ?thesis using True Cons by simp
    next
      case False
      have ih: "\<not> contains fence (re_sub_marker fence cs)"
        using less Cons by simp
      have "\<not> prefix fence (c # re_sub_marker fence cs)"
      proof
        assume "prefix fence (c # re_sub_marker fence cs)"
        then obtain v where "c # re_sub_marker fence cs = fence @ v" by (auto simp: prefix_def)
        then have c: "c = 96" and "re_sub_marker fence cs = 96 # 96 # v"
          by (simp_all add: fence_eq)
        from sub_fence_head2 [OF this(2)] obtain t' where "cs = 96 # 96 # t'" by blast
        with c have "prefix fence (c # cs)" by (simp add: fence_eq)
        with False show False by simp
      qed
      with ih False Cons show ?thesis by simp
    qed
  qed
qed

lemma strip_decomp: "\<exists>a b. s = a @ strip s @ b"
proof -
  have "s = takeWhile is_space s @ dropWhile is_space s" by simp
  moreover have "rev (dropWhile is_space s) =
      takeWhile is_space (rev (dropWhile is_space s)) @ dropWhile is_space (rev (dropWhile is_space s))"
    by simp
  then have "dropWhile is_space s = strip s @ rev (takeWhile is_space (rev (dropWhile is_space s)))"
    unfolding strip_def by (metis rev_append rev_rev_ident)
  ultimately have "s = takeWhile is_space s @ strip s @ rev (takeWhile is_space (rev (dropWhile is_space s)))"
    by simp
  then show ?thesis by blast
qed

lemma contains_strip: "contains p (strip s) \<Longrightarrow> contains p s"
proof -
  assume "contains p (strip s)"
  then obtain u v where "strip s = u @ p @ v" by (auto simp: contains_iff)
  moreover obtain a b where "s = a @ strip s @ b" using strip_decomp by blast
  ultimately have "s = (a @ u) @ p @ (v @ b)" by simp
  then show ?thesis unfolding contains_iff by blast
qed

lemma clean_embedded_fence:
  \<open>clean_json_response (lit ''{"a": "x``` y```json z"}'') = lit ''{"a": "xyz"}''\<close>
  by code_simp

text \<open>
  C10. The text returned by \<open>clean_json_response\<close> holds no occurrence of three
  backticks in a row, wherever the markers stood in the input: a marker inside the
  payload is deleted with the whitespace behind it, as in the example.
\<close>

theorem clean_has_no_fence:
  \<open>\<not> contains fence (clean_json_response response_text)
   \<and> (\<nexists>u v. clean_json_response response_text = u @ lit ''```'' @ v)
   \<and> clean_json_response (lit ''{"a": "x``` y```json z"}'') = lit ''{"a": "xyz"}''\<close>
proof -
  have a: "\<not> contains fence (clean_json_response response_text)"
    unfolding clean_json_response_def using contains_strip sub_fence_no_fence by blast
  then have "\<nexists>u v. clean_json_response response_text = u @ lit ''```'' @ v"
    unfolding contains_iff fence_def .
  with a clean_embedded_fence show ?thesis by blast
qed

subsection \<open>Fences around a body\<close>

lemma sub_skip:
  assumes "p \<noteq> []" and "hd p = 96" and "96 \<notin> set x"
  shows "re_sub_marker p (x @ t) = x @ re_sub_marker p t"
  using assms(3)
proof (induction x)
  case Nil
  show ?case by simp
next
  case (Cons c x)
  have "\<not> prefix p (c # x @ t)"
  proof
    assume "prefix p (c # x @ t)"
    with assms(1) have "hd p = c" by (cases p) simp_all
    with assms(2) Cons.prems show False by simp
  qed
  with Cons show ?case by simp
qed

lemma sub_skip_all:
  assumes "p \<noteq> []" and "hd p = 96" and "96 \<notin> set x"
  shows "re_sub_marker p x = x"
  using sub_skip [OF assms, of "[]"] by simp

lemma sub_match:
  assumes "p \<noteq> []"
  shows "re_sub_marker p (p @ t) = re_sub_marker p (dropWhile is_space t)"
proof -
  from assms obtain a p' where p: "p = a # p'" by (cases p) auto
  have "re_sub_marker p (a # (p' @ t)) =
      re_sub_marker p (dropWhile is_space (drop (length p) (a # (p' @ t))))"
    using assms by (simp add: p)
  then show ?thesis by (simp add: p)
qed

lemma sub_step:
  "\<not> prefix p (c # t) \<Longrightarrow> re_sub_marker p (c # t) = c # re_sub_marker p t"
  by simp

lemma sub_unchanged: "\<not> contains p t \<Longrightarrow> re_sub_marker p t = t"
  by (induction t) auto

lemma contains_fence_json: "contains fence_json t \<Longrightarrow> contains fence t"
proof -
  assume "contains fence_json t"
  then obtain u v where "t = u @ fence_json @ v" by (auto simp: contains_iff)
  then have "t = u @ fence @ ([106, 115, 111, 110] @ v)" by (simp add: fence_eq fence_json_eq)
  then show ?thesis unfolding contains_iff by blast
qed

lemma space_no_backtick: "list_all is_space w \<Longrightarrow> 96 \<notin> set w"
  using not_space_backtick by (auto simp: list_all_iff)

lemma spaces_then_backtick:
  assumes "list_all is_space w" and "prefix (96 # r) (w @ t)"
  shows "w = []"
proof (cases w)
  case Nil
  then show ?thesis .
next
  case (Cons s w')
  with assms(2) have "s = 96" by simp
  with Cons assms(1) not_space_backtick show ?thesis by simp
qed

lemma sub_fence_closing:
  assumes "list_all is_space w"
  shows "re_sub_marker fence (fence @ w) = []"
proof -
  have "fence \<noteq> []" by (simp add: fence_eq)
  then have "re_sub_marker fence (fence @ w) = re_sub_marker fence (dropWhile is_space w)"
    by (rule sub_match)
  moreover from assms have "dropWhile is_space w = []"
    by (simp add: list_all_iff)
  ultimately show ?thesis by simp
qed

lemma sub_spaces:
  assumes "list_all is_space w" and "p \<noteq> []" and "hd p = 96"
  shows "re_sub_marker p w = w"
  using sub_skip_all [OF assms(2,3) space_no_backtick [OF assms(1)]] .

lemma not_prefix_spaces:
  assumes "list_all is_space w"
  shows "\<not> prefix (96 # r) w"
proof
  assume "prefix (96 # r) w"
  then have "prefix (96 # r) (w @ [])" by simp
  from spaces_then_backtick [OF assms this] have "w = []" .
  with \<open>prefix (96 # r) w\<close> show False by simp
qed

lemma ticks_then_spaces:
  assumes "list_all is_space w"
  shows "re_sub_marker fence (96 # w) = 96 # w"
    and "re_sub_marker fence (96 # 96 # w) = 96 # 96 # w"
proof -
  have f: "fence \<noteq> []" "hd fence = 96" by (simp_all add: fence_eq)
  have w: "re_sub_marker fence w = w" by (rule sub_spaces [OF assms f])
  have n1: "\<not> prefix fence (96 # w)"
    using not_prefix_spaces [OF assms] by (simp add: fence_eq)
  then show one: "re_sub_marker fence (96 # w) = 96 # w"
    using w by simp
  have n2: "\<not> prefix fence (96 # 96 # w)"
    using not_prefix_spaces [OF assms] by (simp add: fence_eq)
  then show "re_sub_marker fence (96 # 96 # w) = 96 # 96 # w"
    using one by simp
qed

lemma sub_json_closing:
  assumes "list_all is_space w"
  shows "re_sub_marker fence_json (fence @ w) = fence @ w"
proof -
  have j: "fence_json \<noteq> []" "hd fence_json = 96" by (simp_all add: fence_json_eq)
  have w: "re_sub_marker fence_json w = w" by (rule sub_spaces [OF assms j])
  have "\<not> prefix [106, 115, 111, 110] w"
  proof
    assume "prefix [106, 115, 111, 110] w"
    then obtain v where "w = 106 # 115 # 111 # 110 # v" by (auto simp: prefix_def)
    with assms show False by (simp add: is_space_def)
  qed
  then show ?thesis
    using w not_prefix_spaces [OF assms] by (simp add: fence_eq fence_json_eq)
qed

lemma sub_fence_body:
  assumes "\<not> contains fence b" and "list_all is_space w2" and "list_all is_space w3"
  shows "\<exists>w. list_all is_space w \<and> re_sub_marker fence (b @ w2 @ fence @ w3) = b @ w"
  using assms(1)
proof (induction b)
  case Nil
  have f: "fence \<noteq> []" "hd fence = 96" by (simp_all add: fence_eq)
  have "re_sub_marker fence (w2 @ fence @ w3) = w2 @ re_sub_marker fence (fence @ w3)"
    by (rule sub_skip [OF f space_no_backtick [OF assms(2)]])
  then have "re_sub_marker fence ([] @ w2 @ fence @ w3) = [] @ w2"
    by (simp add: sub_fence_closing [OF assms(3)])
  with assms(2) show ?case by blast
next
  case (Cons c b)
  from Cons.prems have nb: "\<not> contains fence b" and np: "\<not> prefix fence (c # b)"
    by simp_all
  from Cons.IH [OF nb] obtain w where w: "list_all is_space w"
      "re_sub_marker fence (b @ w2 @ fence @ w3) = b @ w"
    by blast
  show ?case
  proof (cases "prefix fence (c # b @ w2 @ fence @ w3)")
    case False
    then have "re_sub_marker fence ((c # b) @ w2 @ fence @ w3) = (c # b) @ w"
      using w(2) by simp
    with w(1) show ?thesis by blast
  next
    case True
    then have c: "c = 96" and p2: "prefix [96, 96] (b @ w2 @ fence @ w3)"
      by (simp_all add: fence_eq)
    consider "b = []" | d where "b = [d]" | d e b' where "b = d # e # b'"
      by (cases b rule: list.exhaust [case_product list.exhaust]) (auto intro: that, metis list.exhaust that)
    then show ?thesis
    proof cases
      case 1
      with p2 have "prefix (96 # [96]) (w2 @ fence @ w3)" by simp
      from spaces_then_backtick [OF assms(2) this] have w2: "w2 = []" .
      have "re_sub_marker fence (96 # 96 # 96 # 96 # w3) =
          re_sub_marker fence (dropWhile is_space (96 # w3))"
        by (simp add: fence_eq)
      also have "\<dots> = 96 # w3"
        using ticks_then_spaces(1) [OF assms(3)] by (simp add: not_space_backtick)
      finally have "re_sub_marker fence ((c # b) @ w2 @ fence @ w3) = (c # b) @ w3"
        by (simp add: 1 c w2 fence_eq)
      with assms(3) show ?thesis by blast
    next
      case 2
      with p2 have d: "d = 96" and "prefix (96 # []) (w2 @ fence @ w3)" by simp_all
      from spaces_then_backtick [OF assms(2) this(2)] have w2: "w2 = []" .
      have "re_sub_marker fence (96 # 96 # 96 # 96 # 96 # w3) =
          re_sub_marker fence (dropWhile is_space (96 # 96 # w3))"
        by (simp add: fence_eq)
      also have "\<dots> = 96 # 96 # w3"
        using ticks_then_spaces(2) [OF assms(3)] by (simp add: not_space_backtick)
      finally have "re_sub_marker fence ((c # b) @ w2 @ fence @ w3) = (c # b) @ w3"
        by (simp add: 2 c d w2 fence_eq)
      with assms(3) show ?thesis by blast
    next
      case 3
      with p2 c have "prefix fence (c # b)" by (simp add: fence_eq)
      with np show ?thesis by simp
    qed
  qed
qed

lemma sub_json_body:
  assumes "\<not> contains fence b" and "list_all is_space w2" and "list_all is_space w3"
  shows "re_sub_marker fence_json (b @ w2 @ fence @ w3) = b @ w2 @ fence @ w3"
  using assms(1)
proof (induction b)
  case Nil
  have j: "fence_json \<noteq> []" "hd fence_json = 96" by (simp_all add: fence_json_eq)
  have "re_sub_marker fence_json (w2 @ fence @ w3) = w2 @ re_sub_marker fence_json (fence @ w3)"
    by (rule sub_skip [OF j space_no_backtick [OF assms(2)]])
  then show ?case by (simp add: sub_json_closing [OF assms(3)])
next
  case (Cons c b)
  from Cons.prems have nb: "\<not> contains fence b" and np: "\<not> prefix fence (c # b)"
    by simp_all
  have "\<not> prefix fence_json (c # b @ w2 @ fence @ w3)"
  proof
    assume "prefix fence_json (c # b @ w2 @ fence @ w3)"
    then have c: "c = 96" and p2: "prefix [96, 96, 106, 115, 111, 110] (b @ w2 @ fence @ w3)"
      by (simp_all add: fence_json_eq)
    consider "b = []" | d where "b = [d]" | d e b' where "b = d # e # b'"
      by (cases b rule: list.exhaust [case_product list.exhaust]) (auto intro: that, metis list.exhaust that)
    then show False
    proof cases
      case 1
      with p2 have p: "prefix (96 # [96, 106, 115, 111, 110]) (w2 @ fence @ w3)" by simp
      from spaces_then_backtick [OF assms(2) this] have "w2 = []" .
      with p show False by (simp add: fence_eq)
    next
      case 2
      with p2 have p: "prefix (96 # [106, 115, 111, 110]) (w2 @ fence @ w3)" by simp
      from spaces_then_backtick [OF assms(2) this] have "w2 = []" .
      with p show False by (simp add: fence_eq)
    next
      case 3
      with p2 c have "prefix fence (c # b)" by (simp add: fence_eq)
      with np show False by simp
    qed
  qed
  then show ?case using Cons.IH [OF nb] by simp
qed

lemma dropWhile_spaces:
  assumes "list_all is_space w"
  shows "dropWhile is_space (w @ t) = dropWhile is_space t"
proof (rule dropWhile_append2)
  fix c assume "c \<in> set w"
  with assms show "is_space c" by (simp add: list_all_iff)
qed

lemma strip_spaces_left:
  assumes "list_all is_space w"
  shows "strip (w @ t) = strip t"
  unfolding strip_def by (simp only: dropWhile_spaces [OF assms])

lemma strip_dropWhile: "strip (dropWhile is_space t) = strip t"
  unfolding strip_def by (simp only: dropWhile_idem)

lemma strip_spaces_right:
  assumes "list_all is_space w"
  shows "strip (t @ w) = strip t"
proof (cases "\<forall>c \<in> set t. is_space c")
  case True
  then have "list_all is_space t" by (simp add: list_all_iff)
  from dropWhile_spaces [OF this, of w] have "dropWhile is_space (t @ w) = dropWhile is_space w" .
  also have "dropWhile is_space w = dropWhile is_space (w @ [])" by simp
  also have "\<dots> = []" by (simp only: dropWhile_spaces [OF assms] dropWhile.simps)
  finally have l: "dropWhile is_space (t @ w) = []" .
  from True have r: "dropWhile is_space t = []" by simp
  show ?thesis unfolding strip_def l r ..
next
  case False
  then have l: "dropWhile is_space (t @ w) = dropWhile is_space t @ w"
    by (simp only: dropWhile_append if_False)
  from assms have "list_all is_space (rev w)" by (simp add: list_all_iff)
  from dropWhile_spaces [OF this]
  have "dropWhile is_space (rev w @ rev (dropWhile is_space t)) =
      dropWhile is_space (rev (dropWhile is_space t))" .
  then show ?thesis unfolding strip_def l rev_append by (rule arg_cong)
qed

lemma strip_spaces: "list_all is_space w \<Longrightarrow> strip w = []"
  using strip_spaces_right [of w "[]"] by (simp add: strip_def)

lemma strip_trimmed:
  assumes "s = [] \<or> (\<not> is_space (hd s) \<and> \<not> is_space (last s))"
  shows "strip s = s"
proof (cases s)
  case Nil
  then show ?thesis by (simp add: strip_def)
next
  case (Cons c cs)
  with assms have h: "\<not> is_space (hd s)" and l: "\<not> is_space (last s)" by simp_all
  from h Cons have a: "dropWhile is_space s = s" by simp
  from Cons have "s \<noteq> []" by simp
  then have "rev s = last s # rev (butlast s)"
    by (metis append_butlast_last_id rev.simps(2) rev_append rev_rev_ident append_Cons append_Nil rev_singleton_conv)
  then obtain xs where r: "rev s = last s # xs" by blast
  have "dropWhile is_space (last s # xs) = last s # xs" using l by simp
  then have "dropWhile is_space (rev s) = rev s" by (simp only: r)
  with a show ?thesis by (simp only: strip_def rev_rev_ident)
qed

lemma contains_dropWhile: "contains p (dropWhile P s) \<Longrightarrow> contains p s"
proof -
  assume "contains p (dropWhile P s)"
  then obtain u v where "dropWhile P s = u @ p @ v" by (auto simp: contains_iff)
  then have "takeWhile P s @ dropWhile P s = (takeWhile P s @ u) @ p @ v" by simp
  then have "s = (takeWhile P s @ u) @ p @ v" by simp
  then show ?thesis unfolding contains_iff by blast
qed

lemma after_opening:
  assumes "\<not> contains fence b" and "list_all is_space w1" and "list_all is_space w2"
  shows "\<exists>b' w2'. dropWhile is_space (w1 @ b @ w2 @ fence @ w3) = b' @ w2' @ fence @ w3
      \<and> \<not> contains fence b' \<and> list_all is_space w2' \<and> strip b' = strip b"
proof (cases "\<forall>c \<in> set b. is_space c")
  case True
  then have sb: "list_all is_space b" by (simp add: list_all_iff)
  have "dropWhile is_space (w1 @ b @ w2 @ fence @ w3) = dropWhile is_space (fence @ w3)"
    by (simp only: dropWhile_spaces [OF assms(2)] dropWhile_spaces [OF sb] dropWhile_spaces [OF assms(3)])
  also have "\<dots> = [] @ [] @ fence @ w3"
    by (simp add: fence_eq not_space_backtick)
  finally have "dropWhile is_space (w1 @ b @ w2 @ fence @ w3) = [] @ [] @ fence @ w3" .
  moreover have "\<not> contains fence []" by (simp add: fence_eq)
  moreover have "strip [] = strip b" using strip_spaces [OF sb] by (simp add: strip_def)
  moreover have "list_all is_space []" by simp
  ultimately show ?thesis by blast
next
  case False
  then obtain x where "x \<in> set b" "\<not> is_space x" by blast
  then have "dropWhile is_space (b @ w2 @ fence @ w3) = dropWhile is_space b @ w2 @ fence @ w3"
    by (rule dropWhile_append1)
  then have "dropWhile is_space (w1 @ b @ w2 @ fence @ w3) = dropWhile is_space b @ w2 @ fence @ w3"
    by (simp only: dropWhile_spaces [OF assms(2)])
  moreover have "\<not> contains fence (dropWhile is_space b)"
    using assms(1) contains_dropWhile by blast
  moreover have "strip (dropWhile is_space b) = strip b" by (rule strip_dropWhile)
  ultimately show ?thesis using assms(3) by blast
qed

lemma strip_after_fences:
  assumes "list_all is_space w0" and "list_all is_space w1" and "list_all is_space w2"
    and "list_all is_space w3" and "\<not> contains fence b"
  shows "re_sub_marker fence_json (dropWhile is_space (w1 @ b @ w2 @ fence @ w3)) =
           dropWhile is_space (w1 @ b @ w2 @ fence @ w3)"
    and "strip (w0 @ re_sub_marker fence (dropWhile is_space (w1 @ b @ w2 @ fence @ w3))) = strip b"
proof -
  from after_opening [OF assms(5,2,3), of w3] obtain b' w2' where
      z: "dropWhile is_space (w1 @ b @ w2 @ fence @ w3) = b' @ w2' @ fence @ w3"
      and nb: "\<not> contains fence b'" and s2: "list_all is_space w2'" and sb: "strip b' = strip b"
    by blast
  show "re_sub_marker fence_json (dropWhile is_space (w1 @ b @ w2 @ fence @ w3)) =
           dropWhile is_space (w1 @ b @ w2 @ fence @ w3)"
    unfolding z by (rule sub_json_body [OF nb s2 assms(4)])
  from sub_fence_body [OF nb s2 assms(4)] obtain w where w: "list_all is_space w"
      "re_sub_marker fence (b' @ w2' @ fence @ w3) = b' @ w"
    by blast
  have "strip (w0 @ b' @ w) = strip (b' @ w)" by (rule strip_spaces_left [OF assms(1)])
  also have "\<dots> = strip b'" by (rule strip_spaces_right [OF w(1)])
  finally show "strip (w0 @ re_sub_marker fence (dropWhile is_space (w1 @ b @ w2 @ fence @ w3))) = strip b"
    unfolding z w(2) sb .
qed

lemma clean_tagged:
  assumes "list_all is_space w0" and "list_all is_space w1" and "list_all is_space w2"
    and "list_all is_space w3" and "\<not> contains fence b"
  shows "clean_json_response (w0 @ fence_json @ w1 @ b @ w2 @ fence @ w3) = strip b"
proof -
  let ?z = "dropWhile is_space (w1 @ b @ w2 @ fence @ w3)"
  have j: "fence_json \<noteq> []" "hd fence_json = 96" by (simp_all add: fence_json_eq)
  have f: "fence \<noteq> []" "hd fence = 96" by (simp_all add: fence_eq)
  have "re_sub_marker fence_json (w0 @ fence_json @ w1 @ b @ w2 @ fence @ w3) =
      w0 @ re_sub_marker fence_json (fence_json @ w1 @ b @ w2 @ fence @ w3)"
    by (rule sub_skip [OF j space_no_backtick [OF assms(1)]])
  also have "\<dots> = w0 @ re_sub_marker fence_json ?z"
    by (simp only: sub_match [OF j(1)])
  also have "\<dots> = w0 @ ?z"
    by (simp only: strip_after_fences(1) [OF assms])
  finally have s1: "re_sub_marker fence_json (w0 @ fence_json @ w1 @ b @ w2 @ fence @ w3) = w0 @ ?z" .
  have s2: "re_sub_marker fence (w0 @ ?z) = w0 @ re_sub_marker fence ?z"
    by (rule sub_skip [OF f space_no_backtick [OF assms(1)]])
  show ?thesis
    unfolding clean_json_response_def s1 s2 by (rule strip_after_fences(2) [OF assms])
qed

lemma clean_untagged:
  assumes "list_all is_space w0" and "list_all is_space w1" and "list_all is_space w2"
    and "list_all is_space w3" and "\<not> contains fence b"
    and nj: "\<not> contains fence_json (w0 @ fence @ w1 @ b @ w2 @ fence @ w3)"
  shows "clean_json_response (w0 @ fence @ w1 @ b @ w2 @ fence @ w3) = strip b"
proof -
  let ?z = "dropWhile is_space (w1 @ b @ w2 @ fence @ w3)"
  have f: "fence \<noteq> []" "hd fence = 96" by (simp_all add: fence_eq)
  have s1: "re_sub_marker fence_json (w0 @ fence @ w1 @ b @ w2 @ fence @ w3) =
      w0 @ fence @ w1 @ b @ w2 @ fence @ w3"
    by (rule sub_unchanged [OF nj])
  have "re_sub_marker fence (w0 @ fence @ w1 @ b @ w2 @ fence @ w3) =
      w0 @ re_sub_marker fence (fence @ w1 @ b @ w2 @ fence @ w3)"
    by (rule sub_skip [OF f space_no_backtick [OF assms(1)]])
  also have "\<dots> = w0 @ re_sub_marker fence ?z"
    by (simp only: sub_match [OF f(1)])
  finally have s2: "re_sub_marker fence (w0 @ fence @ w1 @ b @ w2 @ fence @ w3) =
      w0 @ re_sub_marker fence ?z" .
  show ?thesis
    unfolding clean_json_response_def s1 s2 by (rule strip_after_fences(2) [OF assms(1-5)])
qed

lemma clean_plain:
  assumes "\<not> contains fence t"
  shows "clean_json_response t = strip t"
proof -
  from assms have "\<not> contains fence_json t" using contains_fence_json by blast
  then have "re_sub_marker fence_json t = t" by (rule sub_unchanged)
  moreover have "re_sub_marker fence t = t" using assms by (rule sub_unchanged)
  ultimately show ?thesis by (simp add: clean_json_response_def)
qed

lemma clean_example:
  \<open>clean_json_response (lit ''```json'' @ [10] @ lit ''{"notes":[]}'' @ [10] @ lit ''```'') =
     lit ''{"notes":[]}''\<close>
  by code_simp

lemma clean_unicode_spaces:
  \<open>clean_json_response ([160, 8195] @ lit ''```json'' @ [8232] @ lit ''{"a": "b c"}'' @ [133, 12288] @ lit ''```'' @ [160]) =
     lit ''{"a": "b c"}''\<close>
  by code_simp

text \<open>
  C8. The claim is that the fence markers are removed with an optional language tag.
  The first substitution names the tag \<open>json\<close> and no other: behind a fence with another
  tag the fence goes and the tag stays in the result.
\<close>

theorem clean_other_tag_counterexample:
  \<open>clean_json_response (lit ''```python'' @ [10] @ lit ''{"notes":[]}'' @ [10] @ lit ''```'') =
     lit ''python'' @ [10] @ lit ''{"notes":[]}''
   \<and> clean_json_response (lit ''```python'' @ [10] @ lit ''{"notes":[]}'' @ [10] @ lit ''```'') \<noteq>
     lit ''{"notes":[]}''\<close>
  by code_simp

text \<open>
  C8, as amended. Take a body that holds no fence (single and double backticks are
  allowed), with any whitespace \<open>w0\<close> to \<open>w3\<close>, Unicode whitespace included, around the
  fences. Between an opening fence with the tag \<open>json\<close> and a closing fence the result
  is the body, trimmed. The same holds for an opening fence without a tag, as long as
  the text holds no fence directly followed by \<open>json\<close>. A text without a fence is only
  trimmed, and trimming a text that neither begins nor ends with whitespace, whatever
  whitespace surrounds it, gives that text. On every text the call returns: only a
  value that is not a text makes \<open>re.sub\<close> raise. The example of the specification and
  an example with Unicode whitespace evaluate as stated.
\<close>

theorem clean_removes_fences:
  assumes "list_all is_space w0" and "list_all is_space w1" and "list_all is_space w2"
    and "list_all is_space w3" and "\<not> contains fence b"
  shows
    \<open>clean_json_response (w0 @ fence_json @ w1 @ b @ w2 @ fence @ w3) = strip b
     \<and> (\<not> contains fence_json (w0 @ fence @ w1 @ b @ w2 @ fence @ w3) \<longrightarrow>
          clean_json_response (w0 @ fence @ w1 @ b @ w2 @ fence @ w3) = strip b)
     \<and> clean_json_response b = strip b
     \<and> ((b = [] \<or> (\<not> is_space (hd b) \<and> \<not> is_space (last b))) \<longrightarrow> strip (w0 @ b @ w3) = b)
     \<and> clean_json_response_on (JStr t) = Inr (clean_json_response t)
     \<and> clean_json_response (lit ''```json'' @ [10] @ lit ''{"notes":[]}'' @ [10] @ lit ''```'') =
          lit ''{"notes":[]}''
     \<and> clean_json_response ([160, 8195] @ lit ''```json'' @ [8232] @ lit ''{"a": "b c"}'' @
            [133, 12288] @ lit ''```'' @ [160]) =
          lit ''{"a": "b c"}''\<close>
proof -
  have a: "clean_json_response (w0 @ fence_json @ w1 @ b @ w2 @ fence @ w3) = strip b"
    using assms by (rule clean_tagged)
  have b: "\<not> contains fence_json (w0 @ fence @ w1 @ b @ w2 @ fence @ w3) \<longrightarrow>
          clean_json_response (w0 @ fence @ w1 @ b @ w2 @ fence @ w3) = strip b"
    using assms by (blast intro: clean_untagged)
  have c: "clean_json_response b = strip b"
    using assms(5) by (rule clean_plain)
  have d: "(b = [] \<or> (\<not> is_space (hd b) \<and> \<not> is_space (last b))) \<longrightarrow> strip (w0 @ b @ w3) = b"
  proof
    assume t: "b = [] \<or> (\<not> is_space (hd b) \<and> \<not> is_space (last b))"
    have "strip (w0 @ b @ w3) = strip (b @ w3)" by (rule strip_spaces_left [OF assms(1)])
    also have "\<dots> = strip b" by (rule strip_spaces_right [OF assms(4)])
    also have "\<dots> = b" using t by (rule strip_trimmed)
    finally show "strip (w0 @ b @ w3) = b" .
  qed
  have e: "clean_json_response_on (JStr t) = Inr (clean_json_response t)"
    by (simp add: clean_json_response_on_def)
  from a b c d e clean_example clean_unicode_spaces show ?thesis by blast
qed

theorem clean_removes_fences_witness:
  \<open>list_all is_space [160] \<and> list_all is_space [10] \<and> list_all is_space [8232]
   \<and> \<not> contains fence (lit ''{"tick": "`", "two": "``"}'')
   \<and> \<not> contains fence_json
         ([160] @ fence @ [10] @ lit ''{"tick": "`", "two": "``"}'' @ [10] @ fence @ [8232])
   \<and> \<not> is_space (hd (lit ''{"tick": "`", "two": "``"}''))
   \<and> \<not> is_space (last (lit ''{"tick": "`", "two": "``"}''))
   \<and> clean_json_response
         ([160] @ fence_json @ [10] @ lit ''{"tick": "`", "two": "``"}'' @ [10] @ fence @ [8232]) =
       lit ''{"tick": "`", "two": "``"}''
   \<and> clean_json_response
         ([160] @ fence @ [10] @ lit ''{"tick": "`", "two": "``"}'' @ [10] @ fence @ [8232]) =
       lit ''{"tick": "`", "two": "``"}''
   \<and> strip ([160] @ lit ''{"tick": "`", "two": "``"}'' @ [8232]) = lit ''{"tick": "`", "two": "``"}''\<close>
proof -
  let ?b = \<open>lit ''{"tick": "`", "two": "``"}''\<close>
  have s0: "list_all is_space [160]" by (simp add: is_space_def)
  have s1: "list_all is_space [10]" by (simp add: is_space_def)
  have s3: "list_all is_space [8232]" by (simp add: is_space_def)
  have n: "\<not> contains fence ?b" by code_simp
  have nj: "\<not> contains fence_json ([160] @ fence @ [10] @ ?b @ [10] @ fence @ [8232])" by code_simp
  have h: "\<not> is_space (hd ?b)" by code_simp
  have l: "\<not> is_space (last ?b)" by code_simp
  have v: "strip ?b = ?b" by (rule strip_trimmed) (use h l in blast)
  note t = clean_removes_fences [OF s0 s1 s1 s3 n]
  from t have a: "clean_json_response ([160] @ fence_json @ [10] @ ?b @ [10] @ fence @ [8232]) = ?b"
    unfolding v by (rule conjunct1)
  from t nj have b: "clean_json_response ([160] @ fence @ [10] @ ?b @ [10] @ fence @ [8232]) = ?b"
    unfolding v by blast
  from t h l have c: "strip ([160] @ ?b @ [8232]) = ?b" by blast
  from s0 s1 s3 n nj h l a b c show ?thesis by (intro conjI)
qed

end
